theory Spec2Isabelle
  imports Main "HOL-Library.Multiset"
begin

section \<open>JavaScript values and plain objects\<close>

text \<open>
  The book records of MyBookshelf are plain JavaScript objects read from JSON files and
  from form fields. Their property values are primitives: \<open>undefined\<close>, \<open>null\<close>,
  booleans, numbers and strings. The numbers are the integers (time stamps, counts and
  ratings) and the two infinities, which \<open>JSON.parse\<close> gives for a number that is out of
  range, such as \<open>1e999\<close>; the flag of \<open>JInfinity\<close> says whether it is the negative one.
  \<open>NaN\<close> is not among them: no JSON text gives it, and what the page reads as a number
  from its own elements (a date, a star) is never one. A string is the list of the bytes
  of its UTF-8 encoding. Strict equality \<open>===\<close> on these values is HOL equality.
\<close>

datatype jsval = JUndefined | JNull | JBool bool | JNum int | JInfinity bool | JStr string

text \<open>Truthiness, as tested by \<open>if (v)\<close>, \<open>!v\<close> and \<open>v || d\<close>.\<close>

fun truthy :: "jsval \<Rightarrow> bool" where
  "truthy JUndefined = False"
| "truthy JNull = False"
| "truthy (JBool b) = b"
| "truthy (JNum n) = (n \<noteq> 0)"
| "truthy (JInfinity negative) = True"
| "truthy (JStr s) = (s \<noteq> [])"

text \<open>The operator \<open>a || b\<close>.\<close>

definition js_or :: "jsval \<Rightarrow> jsval \<Rightarrow> jsval" where
  "js_or a b = (if truthy a then a else b)"

text \<open>Decimal digits of a natural number, for the string conversion of numbers.\<close>

definition digit_char :: "nat \<Rightarrow> char" where
  "digit_char d = ''0123456789'' ! d"

fun string_of_nat :: "nat \<Rightarrow> string" where
  "string_of_nat n =
     (if n < 10 then [digit_char n] else string_of_nat (n div 10) @ [digit_char (n mod 10)])"

declare string_of_nat.simps [simp del]

text \<open>
  \<open>ToString\<close>, the conversion applied when a value is used as a property key, inside a
  template literal or as the argument of \<open>RegExp.prototype.test\<close>. Numbers are written
  in decimal digits, as JavaScript writes the integers below \<open>10^21\<close>. From there on
  JavaScript writes an exponent; neither that text nor the digits written here (more than
  ten) are an ASIN, and the time stamps and ratings of the page are far below.
\<close>

fun ToString :: "jsval \<Rightarrow> string" where
  "ToString JUndefined = ''undefined''"
| "ToString JNull = ''null''"
| "ToString (JBool b) = (if b then ''true'' else ''false'')"
| "ToString (JNum n) =
     (if n < 0 then CHR ''-'' # string_of_nat (nat (- n)) else string_of_nat (nat n))"
| "ToString (JInfinity negative) = (if negative then ''-Infinity'' else ''Infinity'')"
| "ToString (JStr s) = s"

text \<open>
  A plain object is the list of its own properties in insertion order. Reading a
  property that is absent gives \<open>undefined\<close>; writing an existing property keeps its
  position, writing a new one appends it.
\<close>

type_synonym obj = "(string \<times> jsval) list"

definition get_prop :: "obj \<Rightarrow> string \<Rightarrow> jsval" where
  "get_prop ob k = (case map_of ob k of None \<Rightarrow> JUndefined | Some v \<Rightarrow> v)"

fun set_prop :: "string \<Rightarrow> jsval \<Rightarrow> obj \<Rightarrow> obj" where
  "set_prop k v [] = [(k, v)]"
| "set_prop k v (p # ps) = (if fst p = k then (k, v) # ps else p # set_prop k v ps)"

text \<open>\<open>Object.assign(target, source)\<close>: every own property of the source is written.\<close>

fun Object_assign :: "obj \<Rightarrow> obj \<Rightarrow> obj" where
  "Object_assign target [] = target"
| "Object_assign target ((k, v) # src) = Object_assign (set_prop k v target) src"

text \<open>
  \<open>Array.prototype.findIndex\<close> and \<open>Array.prototype.indexOf\<close>: the first position, or
  \<open>-1\<close>.
\<close>

fun findIndex :: "('a \<Rightarrow> bool) \<Rightarrow> 'a list \<Rightarrow> int" where
  "findIndex P [] = - 1"
| "findIndex P (x # xs) =
     (if P x then 0 else (let i = findIndex P xs in if i = - 1 then - 1 else i + 1))"

definition indexOf :: "'a list \<Rightarrow> 'a \<Rightarrow> int" where
  "indexOf xs v = findIndex (\<lambda>x. x = v) xs"

text \<open>
  \<open>xs.splice(i, 1)\<close> and \<open>xs.splice(i, 0, v)\<close> for an index \<open>0 \<le> i\<close> (the callers only
  pass the result of \<open>indexOf\<close> or \<open>findIndex\<close> after checking it against \<open>-1\<close>).
\<close>

definition splice_remove :: "int \<Rightarrow> 'a list \<Rightarrow> 'a list" where
  "splice_remove i xs = take (nat i) xs @ drop (Suc (nat i)) xs"

definition splice_insert :: "int \<Rightarrow> 'a \<Rightarrow> 'a list \<Rightarrow> 'a list" where
  "splice_insert i v xs = take (nat i) xs @ v # drop (nat i) xs"

text \<open>
  A book found with \<open>books.find(...)\<close> is a reference into the array, so
  \<open>Object.assign(found, ...)\<close> changes the first array element that satisfies the
  predicate, in place.
\<close>

fun assign_found :: "(obj \<Rightarrow> bool) \<Rightarrow> obj \<Rightarrow> obj list \<Rightarrow> obj list" where
  "assign_found P src [] = []"
| "assign_found P src (b # bs) =
     (if P b then Object_assign b src # bs else b # assign_found P src bs)"

section \<open>BookManager (book-manager.js)\<close>

abbreviation asin_of :: "obj \<Rightarrow> jsval" where
  "asin_of b \<equiv> get_prop b ''asin''"

text \<open>The regular expression \<open>/^[A-Z0-9]{10}$/\<close>.\<close>

definition asin_char :: "char \<Rightarrow> bool" where
  "asin_char c =
     (let n = (of_char c :: nat) in (65 \<le> n \<and> n \<le> 90) \<or> (48 \<le> n \<and> n \<le> 57))"

definition asin_pattern :: "string \<Rightarrow> bool" where
  "asin_pattern s = (length s = 10 \<and> list_all asin_char s)"

definition isValidASIN :: "jsval \<Rightarrow> bool" where
  "isValidASIN asin = asin_pattern (ToString asin)"

record metadata =
  lastImportDate :: jsval
  totalBooks :: nat
  manuallyAdded :: nat
  importedFromKindle :: nat

record library =
  books :: "obj list"
  metadata :: metadata

text \<open>
  The browser as the record store sees it: the value \<open>Date.now()\<close> returns during the
  call (one value for a call, whose time stamps are milliseconds apart) and the
  serialiser \<open>JSON.stringify\<close>, which the theorems leave arbitrary.
\<close>

record env =
  Date_now :: int
  JSON_stringify :: "library \<Rightarrow> string"

text \<open>The state of a \<open>BookManager\<close>: \<open>this.library\<close> and the page's \<open>localStorage\<close>.\<close>

record BookManager =
  library :: library
  localStorage :: "string \<rightharpoonup> string"

text \<open>
  The errors that the record store throws: an ASIN that is missing or invalid, a book
  that is already in the library, and a book that is not found.
\<close>

datatype error = InvalidASIN | AlreadyInLibrary | BookNotFound

text \<open>
  An asynchronous method either throws or returns; both leave a state behind, so the
  model returns the outcome together with the state after the call.
\<close>

type_synonym 'a outcome = "(error + 'a) \<times> BookManager"

definition saveLibrary :: "env \<Rightarrow> BookManager \<Rightarrow> BookManager" where
  "saveLibrary e s =
     s\<lparr>localStorage :=
         (localStorage s)(''virtualBookshelf_library'' \<mapsto> JSON_stringify e (library s))\<rparr>"

definition count_source :: "string \<Rightarrow> obj list \<Rightarrow> nat" where
  "count_source src bs = length (filter (\<lambda>b. get_prop b ''source'' = JStr src) bs)"

text \<open>The UTF-8 bytes of the two Japanese default strings of \<open>addBookManually\<close>.\<close>

definition default_title :: string where
  "default_title =
     [CHR 0xE3, CHR 0x82, CHR 0xBF, CHR 0xE3, CHR 0x82, CHR 0xA4, CHR 0xE3, CHR 0x83,
      CHR 0x88, CHR 0xE3, CHR 0x83, CHR 0xAB, CHR 0xE6, CHR 0x9C, CHR 0xAA, CHR 0xE8,
      CHR 0xA8, CHR 0xAD, CHR 0xE5, CHR 0xAE, CHR 0x9A]"

definition default_authors :: string where
  "default_authors =
     [CHR 0xE8, CHR 0x91, CHR 0x97, CHR 0xE8, CHR 0x80, CHR 0x85, CHR 0xE6, CHR 0x9C,
      CHR 0xAA, CHR 0xE8, CHR 0xA8, CHR 0xAD, CHR 0xE5, CHR 0xAE, CHR 0x9A]"

definition cover_url :: "jsval \<Rightarrow> string" where
  "cover_url asin =
     ''https://images-na.ssl-images-amazon.com/images/P/'' @ ToString asin @ ''.01.L.jpg''"

definition manual_book :: "env \<Rightarrow> obj \<Rightarrow> obj" where
  "manual_book e bookData =
     [(''asin'', asin_of bookData),
      (''title'', js_or (get_prop bookData ''title'') (JStr default_title)),
      (''authors'', js_or (get_prop bookData ''authors'') (JStr default_authors)),
      (''acquiredTime'', js_or (get_prop bookData ''acquiredTime'') (JNum (Date_now e))),
      (''readStatus'', js_or (get_prop bookData ''readStatus'') (JStr ''UNKNOWN'')),
      (''productImage'',
         js_or (get_prop bookData ''productImage'') (JStr (cover_url (asin_of bookData)))),
      (''source'', JStr ''manual_add''),
      (''addedDate'', JNum (Date_now e))]"

definition addBookManually :: "env \<Rightarrow> obj \<Rightarrow> BookManager \<Rightarrow> obj outcome" where
  "addBookManually e bookData s =
     (let asin = asin_of bookData in
      if \<not> truthy asin \<or> \<not> isValidASIN asin then (Inl InvalidASIN, s)
      else if List.find (\<lambda>book. asin_of book = asin) (books (library s)) \<noteq> None
        then (Inl AlreadyInLibrary, s)
      else
        (let newBook = manual_book e bookData;
             bs = books (library s) @ [newBook];
             md = (metadata (library s))
                    \<lparr>totalBooks := length bs, manuallyAdded := count_source ''manual_add'' bs\<rparr>
         in (Inr newBook, saveLibrary e (s\<lparr>library := \<lparr>books = bs, metadata = md\<rparr>\<rparr>))))"

text \<open>\<open>shouldUpdateBook\<close>: one of four properties differs (\<open>authors\<close> is not looked at).\<close>

definition shouldUpdateBook :: "obj \<Rightarrow> obj \<Rightarrow> bool" where
  "shouldUpdateBook existingBook newBook =
     (get_prop existingBook ''acquiredTime'' \<noteq> get_prop newBook ''acquiredTime'' \<or>
      get_prop existingBook ''readStatus'' \<noteq> get_prop newBook ''readStatus'' \<or>
      get_prop existingBook ''title'' \<noteq> get_prop newBook ''title'' \<or>
      get_prop existingBook ''productImage'' \<noteq> get_prop newBook ''productImage'')"

text \<open>The object literal \<open>{...book, source: 'kindle_import', addedDate: Date.now()}\<close>.\<close>

definition kindle_record :: "env \<Rightarrow> obj \<Rightarrow> obj" where
  "kindle_record e book =
     set_prop ''addedDate'' (JNum (Date_now e)) (set_prop ''source'' (JStr ''kindle_import'') book)"

text \<open>The five properties \<open>importFromKindle\<close> copies onto a book it already has.\<close>

definition kindle_update :: "obj \<Rightarrow> obj" where
  "kindle_update kindleBook =
     [(''title'', get_prop kindleBook ''title''),
      (''authors'', get_prop kindleBook ''authors''),
      (''acquiredTime'', get_prop kindleBook ''acquiredTime''),
      (''readStatus'', get_prop kindleBook ''readStatus''),
      (''productImage'', get_prop kindleBook ''productImage'')]"

record import_results =
  total :: nat
  added :: nat
  updated :: nat
  skipped :: nat

text \<open>
  The body of the \<open>for (const kindleBook of kindleBooks)\<close> loop of \<open>importFromKindle\<close>,
  on the books array and the counters, and the loop itself. The library is searched
  again at every round, so a record appended in one round is found by the next ones.
\<close>

definition import_body :: "env \<Rightarrow> obj \<Rightarrow> obj list \<times> import_results \<Rightarrow> obj list \<times> import_results"
  where
  "import_body e kindleBook st =
     (let bs = fst st; r = snd st in
      case List.find (\<lambda>book. asin_of book = asin_of kindleBook) bs of
        Some existingBook \<Rightarrow>
          if shouldUpdateBook existingBook kindleBook
          then (assign_found (\<lambda>book. asin_of book = asin_of kindleBook)
                  (kindle_update kindleBook) bs,
                r\<lparr>updated := updated r + 1\<rparr>)
          else (bs, r\<lparr>skipped := skipped r + 1\<rparr>)
      | None \<Rightarrow> (bs @ [kindle_record e kindleBook], r\<lparr>added := added r + 1\<rparr>))"

fun import_loop :: "env \<Rightarrow> obj list \<Rightarrow> obj list \<times> import_results \<Rightarrow> obj list \<times> import_results"
  where
  "import_loop e [] st = st"
| "import_loop e (kindleBook # rest) st = import_loop e rest (import_body e kindleBook st)"

text \<open>
  \<open>importFromKindle\<close>, from the parsed array \<open>kindleBooks\<close> on (reading the file or
  fetching \<open>data/kindle.json\<close> and parsing it come before any change of the library).
\<close>

definition importFromKindle :: "env \<Rightarrow> obj list \<Rightarrow> BookManager \<Rightarrow> import_results outcome" where
  "importFromKindle e kindleBooks s =
     (let importResults = \<lparr>total = length kindleBooks, added = 0, updated = 0, skipped = 0\<rparr>;
          st = import_loop e kindleBooks (books (library s), importResults);
          bs = fst st;
          md = (metadata (library s))
                 \<lparr>lastImportDate := JNum (Date_now e),
                  totalBooks := length bs,
                  importedFromKindle := count_source ''kindle_import'' bs\<rparr>
      in (Inr (snd st), saveLibrary e (s\<lparr>library := \<lparr>books = bs, metadata = md\<rparr>\<rparr>)))"

text \<open>
  \<open>importSelectedBooks\<close>. The set \<open>existingASINs\<close> is built once, before the loop, and
  the loop does not add to it. The \<open>catch\<close> branch is not reached for object inputs, so
  \<open>errorBooks\<close> stays empty. The UTF-8 bytes of the reason given for a duplicate follow.
\<close>

definition duplicate_reason :: string where
  "duplicate_reason =
     [CHR 0xE6, CHR 0x97, CHR 0xA2, CHR 0xE3, CHR 0x81, CHR 0xAB, CHR 0xE5, CHR 0xAD,
      CHR 0x98, CHR 0xE5, CHR 0x9C, CHR 0xA8]"

record selected_results = import_results +
  success :: bool
  imported :: "obj list"
  duplicates :: "obj list"
  errors :: "obj list"

fun selected_loop ::
  "env \<Rightarrow> jsval set \<Rightarrow> obj list \<Rightarrow> obj list \<times> obj list \<times> obj list
     \<Rightarrow> obj list \<times> obj list \<times> obj list" where
  "selected_loop e existingASINs [] st = st"
| "selected_loop e existingASINs (book # rest) (bs, importedBooks, duplicateBooks) =
     (if asin_of book \<in> existingASINs
      then selected_loop e existingASINs rest
             (bs, importedBooks,
              duplicateBooks @ [[(''title'', get_prop book ''title''), (''asin'', asin_of book),
                                 (''reason'', JStr duplicate_reason)]])
      else selected_loop e existingASINs rest
             (bs @ [kindle_record e book], importedBooks @ [kindle_record e book],
              duplicateBooks))"

definition importSelectedBooks ::
  "env \<Rightarrow> obj list \<Rightarrow> BookManager \<Rightarrow> selected_results outcome" where
  "importSelectedBooks e selectedBooks s =
     (let existingASINs = set (map asin_of (books (library s)));
          st = selected_loop e existingASINs selectedBooks (books (library s), [], []);
          bs = fst st;
          importedBooks = fst (snd st);
          duplicateBooks = snd (snd st);
          md = \<lparr>lastImportDate = JNum (Date_now e),
                totalBooks = length bs,
                manuallyAdded = count_source ''manual_add'' bs,
                importedFromKindle = count_source ''kindle_import'' bs\<rparr>
      in (Inr \<lparr>total = length selectedBooks, added = length importedBooks, updated = 0,
               skipped = length duplicateBooks + 0, success = True,
               imported = importedBooks, duplicates = duplicateBooks, errors = []\<rparr>,
          saveLibrary e (s\<lparr>library := \<lparr>books = bs, metadata = md\<rparr>\<rparr>)))"

text \<open>
  The class body declares \<open>updateBook\<close> twice; the second declaration replaces the
  first, so it is the method that runs. Both write \<open>updates\<close> onto the book found and
  save the library.
\<close>

definition updateBook :: "env \<Rightarrow> jsval \<Rightarrow> obj \<Rightarrow> BookManager \<Rightarrow> obj outcome" where
  "updateBook e asin updates s =
     (case List.find (\<lambda>book. asin_of book = asin) (books (library s)) of
        None \<Rightarrow> (Inl BookNotFound, s)
      | Some book \<Rightarrow>
          (Inr (Object_assign book updates),
           saveLibrary e
             (s\<lparr>library := (library s)
                  \<lparr>books := assign_found (\<lambda>book. asin_of book = asin) updates
                              (books (library s))\<rparr>\<rparr>)))"

definition updateBook_first :: "env \<Rightarrow> jsval \<Rightarrow> obj \<Rightarrow> BookManager \<Rightarrow> bool outcome" where
  "updateBook_first e asin updates s =
     (let bookIndex = findIndex (\<lambda>book. asin_of book = asin) (books (library s)) in
      if bookIndex = - 1 then (Inl BookNotFound, s)
      else
        (let bs = assign_found (\<lambda>book. asin_of book = asin) updates (books (library s));
             md = (metadata (library s))
                    \<lparr>totalBooks := length bs,
                     manuallyAdded := count_source ''manual_add'' bs,
                     importedFromKindle := count_source ''kindle_import'' bs\<rparr>
         in (Inr True, saveLibrary e (s\<lparr>library := \<lparr>books = bs, metadata = md\<rparr>\<rparr>))))"

definition deleteBook :: "env \<Rightarrow> jsval \<Rightarrow> bool \<Rightarrow> BookManager \<Rightarrow> bool outcome" where
  "deleteBook e asin hardDelete s =
     (let bookIndex = findIndex (\<lambda>book. asin_of book = asin) (books (library s)) in
      if bookIndex = - 1 then (Inl BookNotFound, s)
      else if hardDelete then
        (let bs = splice_remove bookIndex (books (library s));
             md = (metadata (library s))
                    \<lparr>totalBooks := length bs,
                     manuallyAdded := count_source ''manual_add'' bs,
                     importedFromKindle := count_source ''kindle_import'' bs\<rparr>
         in (Inr True, saveLibrary e (s\<lparr>library := \<lparr>books = bs, metadata = md\<rparr>\<rparr>)))
      else (Inr True, saveLibrary e s))"

definition clearAllBooks :: "env \<Rightarrow> BookManager \<Rightarrow> bool outcome" where
  "clearAllBooks e s =
     (Inr True,
      saveLibrary e
        (s\<lparr>library :=
             \<lparr>books = [],
              metadata = \<lparr>lastImportDate = JNull, totalBooks = 0, manuallyAdded = 0,
                          importedFromKindle = 0\<rparr>\<rparr>\<rparr>))"


text \<open>The state the constructor sets up, in a browser whose storage is empty.\<close>

definition new_BookManager :: BookManager where
  "new_BookManager =
     \<lparr>library = \<lparr>books = [],
                  metadata = \<lparr>lastImportDate = JNull, totalBooks = 0, manuallyAdded = 0,
                              importedFromKindle = 0\<rparr>\<rparr>,
      localStorage = Map.empty\<rparr>"

section \<open>VirtualBookshelf (bookshelf.js)\<close>

text \<open>
  What the presentation layer keeps of the notes and the orders: \<open>userData.notes\<close>, an
  object keyed by ASIN, \<open>userData.bookOrder\<close>, an object keyed by bookshelf id, the
  filtered books and the sort order. The custom orders are read and written at the
  values of the bookshelf selector, which are \<open>all\<close> and the ids that the page makes
  from \<open>bookshelf_\<close> and a time stamp. \<open>saveUserData\<close>, called at the end of the methods
  below, stores \<open>JSON.stringify(this.userData)\<close> under \<open>virtualBookshelf_userData\<close> and
  changes none of these fields; \<open>updateDisplay\<close> only redraws.
\<close>

record annotation =
  memo :: jsval
  rating :: jsval

record VirtualBookshelf =
  userNotes :: "string \<rightharpoonup> annotation"
  bookOrder :: "string \<rightharpoonup> jsval list"
  filteredBooks :: "obj list"
  sortOrder :: string

text \<open>
  The notes are keyed by ASIN, and an ASIN is any string of a Kindle file. Reading
  \<open>notes[asin]\<close> on a plain object also finds what every object inherits from
  \<open>Object.prototype\<close>: the twelve properties the engine defines there, and the properties
  the page has written there since. Eleven of the twelve are function objects, and
  \<open>__proto__\<close> gives \<open>Object.prototype\<close> itself; all of them accept new properties.
  \<open>userNotes\<close> holds the own properties of the notes object, which are annotations.
  \<open>inherited\<close> holds, for each of the twelve names, the properties that the page has
  written onto the object the name gives; at \<open>__proto__\<close> these are the properties
  written onto \<open>Object.prototype\<close>. The page writes only \<open>memo\<close> and \<open>rating\<close> there, so
  no other property of a book or of an annotation is read from these objects.
\<close>

definition Object_prototype_names :: "string list" where
  "Object_prototype_names =
     [''constructor'', ''__defineGetter__'', ''__defineSetter__'', ''hasOwnProperty'',
      ''__lookupGetter__'', ''__lookupSetter__'', ''isPrototypeOf'', ''propertyIsEnumerable'',
      ''toString'', ''valueOf'', ''__proto__'', ''toLocaleString'']"

record page =
  bookshelf :: VirtualBookshelf
  inherited :: "string \<Rightarrow> obj"

text \<open>
  The value of \<open>notes[asin]\<close>: an annotation of the notes object, or the object that an
  inherited name gives, or the value of a property written onto \<open>Object.prototype\<close>
  (\<open>undefined\<close> when there is none).
\<close>

datatype note_value = OwnNote annotation | InheritedObject string | PrototypeValue jsval

definition notes_get :: "page \<Rightarrow> string \<Rightarrow> note_value" where
  "notes_get pg asin =
     (case userNotes (bookshelf pg) asin of
        Some n \<Rightarrow> OwnNote n
      | None \<Rightarrow>
          if asin \<in> set Object_prototype_names then InheritedObject asin
          else PrototypeValue (get_prop (inherited pg ''__proto__'') asin))"

text \<open>
  Reading the property \<open>p\<close> of the object an inherited name gives: the property written
  onto that object, and otherwise the one written onto \<open>Object.prototype\<close>, which the
  function objects inherit from.
\<close>

definition inherited_prop :: "page \<Rightarrow> string \<Rightarrow> string \<Rightarrow> jsval" where
  "inherited_prop pg k p =
     (case map_of (inherited pg k) p of
        Some v \<Rightarrow> v
      | None \<Rightarrow> if k = ''__proto__'' then JUndefined else get_prop (inherited pg ''__proto__'') p)"

text \<open>
  \<open>x?.memo\<close> and \<open>x?.rating\<close> for a value \<open>x\<close> of \<open>notes[asin]\<close>. On \<open>undefined\<close> and
  \<open>null\<close> the optional chain gives \<open>undefined\<close>; another primitive is wrapped, and the
  wrapper inherits from \<open>Object.prototype\<close>.
\<close>

definition note_memo :: "page \<Rightarrow> note_value \<Rightarrow> jsval" where
  "note_memo pg x =
     (case x of
        OwnNote n \<Rightarrow> memo n
      | InheritedObject k \<Rightarrow> inherited_prop pg k ''memo''
      | PrototypeValue v \<Rightarrow>
          if v = JUndefined \<or> v = JNull then JUndefined
          else get_prop (inherited pg ''__proto__'') ''memo'')"

definition note_rating :: "page \<Rightarrow> note_value \<Rightarrow> jsval" where
  "note_rating pg x =
     (case x of
        OwnNote n \<Rightarrow> rating n
      | InheritedObject k \<Rightarrow> inherited_prop pg k ''rating''
      | PrototypeValue v \<Rightarrow>
          if v = JUndefined \<or> v = JNull then JUndefined
          else get_prop (inherited pg ''__proto__'') ''rating'')"

definition set_note :: "string \<Rightarrow> annotation \<Rightarrow> page \<Rightarrow> page" where
  "set_note asin n pg =
     pg\<lparr>bookshelf := (bookshelf pg)\<lparr>userNotes := (userNotes (bookshelf pg))(asin \<mapsto> n)\<rparr>\<rparr>"

text \<open>
  The first statement of \<open>saveNote\<close> and of \<open>saveRating\<close>:
  \<open>if (!this.userData.notes[asin]) this.userData.notes[asin] = { memo: '', rating: 0 }\<close>.
  An annotation and an inherited object are truthy. The assignment makes an own
  property of the notes object.
\<close>

definition init_note :: "string \<Rightarrow> page \<Rightarrow> page" where
  "init_note asin pg =
     (case notes_get pg asin of
        OwnNote n \<Rightarrow> pg
      | InheritedObject k \<Rightarrow> pg
      | PrototypeValue v \<Rightarrow>
          if truthy v then pg else set_note asin \<lparr>memo = JStr [], rating = JNum 0\<rparr> pg)"

text \<open>
  The second statement assigns to a property of \<open>notes[asin]\<close>. When that value is a
  primitive, the assignment throws a \<open>TypeError\<close>, as the methods of a class are strict
  mode code; nothing has changed by then, and \<open>saveUserData\<close> is not reached.
\<close>

datatype js_exception = TypeError

definition saveNote :: "string \<Rightarrow> jsval \<Rightarrow> page \<Rightarrow> js_exception + page" where
  "saveNote asin m pg =
     (let pg1 = init_note asin pg in
      case notes_get pg1 asin of
        OwnNote n \<Rightarrow> Inr (set_note asin (n\<lparr>memo := m\<rparr>) pg1)
      | InheritedObject k \<Rightarrow>
          Inr (pg1\<lparr>inherited := (inherited pg1)(k := set_prop ''memo'' m (inherited pg1 k))\<rparr>)
      | PrototypeValue v \<Rightarrow> Inl TypeError)"

definition saveRating :: "string \<Rightarrow> jsval \<Rightarrow> page \<Rightarrow> js_exception + page" where
  "saveRating asin r pg =
     (let pg1 = init_note asin pg in
      case notes_get pg1 asin of
        OwnNote n \<Rightarrow> Inr (set_note asin (n\<lparr>rating := r\<rparr>) pg1)
      | InheritedObject k \<Rightarrow>
          Inr (pg1\<lparr>inherited := (inherited pg1)(k := set_prop ''rating'' r (inherited pg1 k))\<rparr>)
      | PrototypeValue v \<Rightarrow> Inl TypeError)"

text \<open>
  \<open>reorderBooks\<close>, with the value of the bookshelf selector as an argument. An order
  that is missing or empty is first set to the ASINs of the filtered books.
\<close>

definition reorderBooks ::
  "jsval \<Rightarrow> jsval \<Rightarrow> string \<Rightarrow> VirtualBookshelf \<Rightarrow> VirtualBookshelf" where
  "reorderBooks draggedASIN targetASIN currentBookshelfId vb =
     (let stored = (case bookOrder vb currentBookshelfId of None \<Rightarrow> [] | Some xs \<Rightarrow> xs);
          initial = (if length stored = 0 then map asin_of (filteredBooks vb) else stored);
          pushed = (if draggedASIN \<notin> set initial then initial @ [draggedASIN] else initial);
          draggedIndex = indexOf pushed draggedASIN;
          removed = (if draggedIndex \<noteq> - 1 then splice_remove draggedIndex pushed else pushed);
          targetIndex = indexOf removed targetASIN;
          inserted = (if targetIndex \<noteq> - 1 then splice_insert targetIndex draggedASIN removed
                      else removed @ [draggedASIN])
      in vb\<lparr>bookOrder := (bookOrder vb)(currentBookshelfId \<mapsto> inserted),
            sortOrder := ''custom''\<rparr>)"

text \<open>The comparator that \<open>renderStandardView\<close> passes to \<open>sort\<close>.\<close>

definition custom_compare :: "jsval list \<Rightarrow> obj \<Rightarrow> obj \<Rightarrow> int" where
  "custom_compare customOrder a b =
     (let aIndex = indexOf customOrder (asin_of a);
          bIndex = indexOf customOrder (asin_of b)
      in if aIndex = - 1 \<and> bIndex = - 1 then 0
         else if aIndex = - 1 then 1
         else if bIndex = - 1 then - 1
         else aIndex - bIndex)"

text \<open>
  \<open>Array.prototype.sort\<close> with a comparator is a stable sort (ECMAScript 2019): an
  element goes behind every element that the comparator does not put after it. A stable
  insertion sort is the model; for a comparator that is a consistent ordering, as the
  one above is, every stable sort gives this result.
\<close>

fun sort_insert :: "('a \<Rightarrow> 'a \<Rightarrow> int) \<Rightarrow> 'a \<Rightarrow> 'a list \<Rightarrow> 'a list" where
  "sort_insert cmp x [] = [x]"
| "sort_insert cmp x (y # ys) = (if cmp x y \<le> 0 then x # y # ys else y # sort_insert cmp x ys)"

fun Array_sort :: "('a \<Rightarrow> 'a \<Rightarrow> int) \<Rightarrow> 'a list \<Rightarrow> 'a list" where
  "Array_sort cmp [] = []"
| "Array_sort cmp (x # xs) = sort_insert cmp x (Array_sort cmp xs)"

text \<open>
  The comparator compares two books by this key: the index in the custom order, and for
  a book that is not listed a value above every index.
\<close>

definition custom_rank :: "jsval list \<Rightarrow> obj \<Rightarrow> int" where
  "custom_rank customOrder b =
     (if indexOf customOrder (asin_of b) = - 1 then int (length customOrder)
      else indexOf customOrder (asin_of b))"

text \<open>
  The list \<open>booksToRender\<close> of \<open>renderStandardView\<close>, before it is cut into pages: a copy
  of the filtered books, sorted when the sort order is \<open>custom\<close> and the selected
  bookshelf has a custom order.
\<close>

definition booksToRender :: "string \<Rightarrow> VirtualBookshelf \<Rightarrow> obj list" where
  "booksToRender currentBookshelfId vb =
     (if sortOrder vb = ''custom'' then
        (case bookOrder vb currentBookshelfId of
           Some customOrder \<Rightarrow> Array_sort (custom_compare customOrder) (filteredBooks vb)
         | None \<Rightarrow> filteredBooks vb)
      else filteredBooks vb)"

text \<open>A book is listed when its ASIN occurs in the custom order.\<close>

abbreviation listed :: "jsval list \<Rightarrow> obj \<Rightarrow> bool" where
  "listed customOrder b \<equiv> asin_of b \<in> set customOrder"

section \<open>Export and reload of the library file\<close>

text \<open>
  The \<open>books\<close> object of the export is keyed by ASIN. An engine lists the own
  properties of an object with the array indices first, in ascending numeric order, and
  the other string keys after them in the order they were created; \<open>Object.keys\<close> and
  \<open>Object.values\<close> follow that order. An array index is the canonical decimal form of
  a number below \<open>2^32 - 1\<close>; ten-digit ISBNs used as ASINs can be such keys.
\<close>

definition is_digit :: "char \<Rightarrow> bool" where
  "is_digit c = (let n = (of_char c :: nat) in 48 \<le> n \<and> n \<le> 57)"

definition digits_value :: "string \<Rightarrow> nat" where
  "digits_value s = foldl (\<lambda>n c. 10 * n + ((of_char c :: nat) - 48)) 0 s"

definition array_index :: "string \<Rightarrow> nat option" where
  "array_index s =
     (if s \<noteq> [] \<and> list_all is_digit s \<and> (length s = 1 \<or> hd s \<noteq> CHR ''0'')
         \<and> digits_value s < 4294967295
      then Some (digits_value s) else None)"

fun insert_index :: "nat \<Rightarrow> string \<Rightarrow> 'v \<Rightarrow> (string \<times> 'v) list \<Rightarrow> (string \<times> 'v) list" where
  "insert_index n k v [] = [(k, v)]"
| "insert_index n k v (p # ps) =
     (case array_index (fst p) of
        Some m \<Rightarrow> if m < n then p # insert_index n k v ps else (k, v) # p # ps
      | None \<Rightarrow> (k, v) # p # ps)"

fun replace_value :: "string \<Rightarrow> 'v \<Rightarrow> (string \<times> 'v) list \<Rightarrow> (string \<times> 'v) list" where
  "replace_value k v [] = []"
| "replace_value k v (p # ps) = (if fst p = k then (k, v) # ps else p # replace_value k v ps)"

text \<open>
  Making the own property \<open>key\<close> of an object listed in that order: an existing
  property keeps its place, a new array index goes to its place among the array
  indices, and another new key goes to the end.
\<close>

definition define_key :: "string \<Rightarrow> 'v \<Rightarrow> (string \<times> 'v) list \<Rightarrow> (string \<times> 'v) list" where
  "define_key k v ps =
     (if map_of ps k \<noteq> None then replace_value k v ps
      else case array_index k of Some n \<Rightarrow> insert_index n k v ps | None \<Rightarrow> ps @ [(k, v)])"

text \<open>
  The assignment \<open>object[key] = value\<close> of an object value, on an object literal. The key
  \<open>__proto__\<close> is the one exception among strings: assigning to it sets the prototype of
  the object and makes no property.
\<close>

definition assign_key :: "string \<Rightarrow> 'v \<Rightarrow> (string \<times> 'v) list \<Rightarrow> (string \<times> 'v) list" where
  "assign_key k v ps = (if k = ''__proto__'' then ps else define_key k v ps)"

text \<open>
  The text of a JSON file, given by its values. A primitive value is \<open>null\<close>, a boolean,
  a number or a string. \<open>JSON.stringify\<close> writes a non-finite number as \<open>null\<close> and
  leaves out a property whose value is \<open>undefined\<close>; it writes the members of an object
  in the order of the properties. \<open>JSON.parse\<close> (which \<open>response.json()\<close> runs) makes the
  members of an object one by one into own properties; a member that comes again
  replaces the value of the first, and \<open>__proto__\<close> is a key like any other.
\<close>

datatype json_value = JsonNull | JsonBool bool | JsonNumber int | JsonString string

fun JSON_stringify_value :: "jsval \<Rightarrow> json_value option" where
  "JSON_stringify_value JUndefined = None"
| "JSON_stringify_value JNull = Some JsonNull"
| "JSON_stringify_value (JBool b) = Some (JsonBool b)"
| "JSON_stringify_value (JNum n) = Some (JsonNumber n)"
| "JSON_stringify_value (JInfinity negative) = Some JsonNull"
| "JSON_stringify_value (JStr s) = Some (JsonString s)"

fun JSON_parse_value :: "json_value \<Rightarrow> jsval" where
  "JSON_parse_value JsonNull = JNull"
| "JSON_parse_value (JsonBool b) = JBool b"
| "JSON_parse_value (JsonNumber n) = JNum n"
| "JSON_parse_value (JsonString s) = JStr s"

type_synonym json_object = "(string \<times> json_value) list"

definition JSON_stringify_object :: "obj \<Rightarrow> json_object" where
  "JSON_stringify_object ob =
     List.map_filter (\<lambda>p. map_option (Pair (fst p)) (JSON_stringify_value (snd p))) ob"

definition JSON_parse_object :: "json_object \<Rightarrow> obj" where
  "JSON_parse_object members =
     foldl (\<lambda>ob p. define_key (fst p) (JSON_parse_value (snd p)) ob) [] members"

definition JSON_parse_books :: "(string \<times> json_object) list \<Rightarrow> (string \<times> obj) list" where
  "JSON_parse_books members =
     foldl (\<lambda>ob p. define_key (fst p) (JSON_parse_object (snd p)) ob) [] members"

text \<open>
  \<open>exportUnifiedData\<close>, up to the text \<open>JSON.stringify(exportData, null, 2)\<close> that is
  offered as \<open>library.json\<close>. Of the members of \<open>exportData\<close> the model has those that
  \<open>BookManager.initialize\<close> reads back, which are the export date (a string), the books
  and \<open>stats.totalBooks\<close> (a count); the bookshelves, the settings, the custom orders,
  the number of notes and the version are written as well and not read there.
  \<open>this.books\<close> (the array of the record store) and the value of
  \<open>new Date().toISOString()\<close> are arguments.
\<close>

record library_json =
  json_exportDate :: string
  json_books :: "(string \<times> json_object) list"
  json_totalBooks :: nat

definition exported_book :: "env \<Rightarrow> page \<Rightarrow> obj \<Rightarrow> obj" where
  "exported_book e pg book =
     (let x = notes_get pg (ToString (asin_of book)) in
      [(''title'', js_or (get_prop book ''title'') (JStr [])),
       (''authors'', js_or (get_prop book ''authors'') (JStr [])),
       (''acquiredTime'', js_or (get_prop book ''acquiredTime'') (JNum (Date_now e))),
       (''readStatus'', js_or (get_prop book ''readStatus'') (JStr ''UNREAD'')),
       (''productImage'', js_or (get_prop book ''productImage'') (JStr [])),
       (''source'', js_or (get_prop book ''source'') (JStr ''unknown'')),
       (''addedDate'', js_or (get_prop book ''addedDate'') (JNum (Date_now e))),
       (''memo'', js_or (note_memo pg x) (JStr [])),
       (''rating'', js_or (note_rating pg x) (JNum 0))])"

fun export_books ::
  "env \<Rightarrow> page \<Rightarrow> obj list \<Rightarrow> (string \<times> obj) list \<Rightarrow> (string \<times> obj) list"
  where
  "export_books e pg [] acc = acc"
| "export_books e pg (book # rest) acc =
     export_books e pg rest
       (if truthy (asin_of book)
        then assign_key (ToString (asin_of book)) (exported_book e pg book) acc
        else acc)"

definition exportUnifiedData :: "env \<Rightarrow> string \<Rightarrow> obj list \<Rightarrow> page \<Rightarrow> library_json" where
  "exportUnifiedData e today theBooks pg =
     (let bs = export_books e pg theBooks [] in
      \<lparr>json_exportDate = today,
       json_books = map (\<lambda>p. (fst p, JSON_stringify_object (snd p))) bs,
       json_totalBooks = length bs\<rparr>)"

text \<open>
  The \<open>library.json\<close> branch of \<open>BookManager.initialize\<close>, taken when \<open>localStorage\<close>
  holds no library. Its argument is the text of the file, or \<open>None\<close> when fetching or
  parsing fails (the \<open>catch\<close> branch); \<open>response.json()\<close> parses it. The file holds an
  object of objects under \<open>books\<close>, as every export does. Each value of the
  parsed \<open>books\<close> object is an object of its own, so the test
  \<open>libraryData.books[asin] === book\<close> holds exactly when the property \<open>asin\<close> sits at
  the position of \<open>book\<close>.
\<close>

definition loaded_book :: "(string \<times> obj) list \<Rightarrow> nat \<Rightarrow> obj" where
  "loaded_book entries i =
     (let book = snd (entries ! i) in
      [(''title'', get_prop book ''title''),
       (''authors'', get_prop book ''authors''),
       (''acquiredTime'', get_prop book ''acquiredTime''),
       (''readStatus'', get_prop book ''readStatus''),
       (''asin'',
          (case List.find (\<lambda>asin. findIndex (\<lambda>p. fst p = asin) entries = int i)
                  (map fst entries) of
             None \<Rightarrow> JUndefined
           | Some asin \<Rightarrow> JStr asin)),
       (''productImage'', get_prop book ''productImage''),
       (''source'', get_prop book ''source''),
       (''addedDate'', get_prop book ''addedDate'')])"

definition initialize_from_library_json :: "library_json option \<Rightarrow> library" where
  "initialize_from_library_json file =
     (case file of
        Some d \<Rightarrow>
          (let entries = JSON_parse_books (json_books d) in
           \<lparr>books = map (loaded_book entries) [0..<length entries],
            metadata = \<lparr>lastImportDate = JStr (json_exportDate d),
                        totalBooks = json_totalBooks d,
                        manuallyAdded = 0,
                        importedFromKindle = json_totalBooks d\<rparr>\<rparr>)
      | None \<Rightarrow>
          \<lparr>books = [],
           metadata = \<lparr>lastImportDate = JNull, totalBooks = 0, manuallyAdded = 0,
                       importedFromKindle = 0\<rparr>\<rparr>)"

text \<open>
  The record that \<open>initialize\<close> builds for a property of the \<open>books\<close> object once
  the key of the property is found.
\<close>

definition reloaded :: "string \<times> obj \<Rightarrow> obj" where
  "reloaded kv =
      [(''title'', get_prop (snd kv) ''title''),
       (''authors'', get_prop (snd kv) ''authors''),
       (''acquiredTime'', get_prop (snd kv) ''acquiredTime''),
       (''readStatus'', get_prop (snd kv) ''readStatus''),
       (''asin'', JStr (fst kv)),
       (''productImage'', get_prop (snd kv) ''productImage''),
       (''source'', get_prop (snd kv) ''source''),
       (''addedDate'', get_prop (snd kv) ''addedDate'')]"

text \<open>The eight properties of a book record that the round trip is about.\<close>

definition record_fields :: "obj \<Rightarrow> jsval list" where
  "record_fields b =
     map (get_prop b)
       [''asin'', ''title'', ''authors'', ''acquiredTime'', ''readStatus'', ''productImage'',
        ''source'', ''addedDate'']"

section \<open>ASIN extraction from a link\<close>

text \<open>
  The five regular expressions of \<open>extractASINFromUrl\<close>, each with the one capture group
  \<open>([A-Z0-9]{10})\<close>. \<open>url.match(pattern)\<close> tries the start positions from left to
  right; \<open>.*\<close> takes as many characters other than line terminators as it can and gives
  them back one by one.
\<close>

definition capture_group :: "string \<Rightarrow> string option" where
  "capture_group s =
     (if 10 \<le> length s \<and> list_all asin_char (take 10 s) then Some (take 10 s) else None)"

text \<open>A literal followed by the group, as in \<open>amazon\.co\.jp\/dp\/([A-Z0-9]{10})\<close>.\<close>

definition literal_group :: "string \<Rightarrow> string \<Rightarrow> string option" where
  "literal_group lit s =
     (if take (length lit) s = lit then capture_group (drop (length lit) s) else None)"

text \<open>
  The line terminators, which \<open>.\<close> does not match: line feed, carriage return, and the
  line and paragraph separators U+2028 and U+2029, whose UTF-8 bytes are E2 80 A8 and
  E2 80 A9.
\<close>

definition line_terminator_at :: "string \<Rightarrow> bool" where
  "line_terminator_at s =
     (case s of
        [] \<Rightarrow> False
      | c # cs \<Rightarrow>
          c = CHR 0x0A \<or> c = CHR 0x0D
          \<or> (c = CHR 0xE2
              \<and> (take 2 cs = [CHR 0x80, CHR 0xA8] \<or> take 2 cs = [CHR 0x80, CHR 0xA9])))"

fun dot_star :: "(string \<Rightarrow> string option) \<Rightarrow> string \<Rightarrow> string option" where
  "dot_star k [] = k []"
| "dot_star k (c # cs) =
     (if line_terminator_at (c # cs) then k (c # cs)
      else case dot_star k cs of Some g \<Rightarrow> Some g | None \<Rightarrow> k (c # cs))"

text \<open>As in \<open>amazon\.co\.jp\/.*\/dp\/([A-Z0-9]{10})\<close>.\<close>

definition literal_any_group :: "string \<Rightarrow> string \<Rightarrow> string \<Rightarrow> string option" where
  "literal_any_group lit1 lit2 s =
     (if take (length lit1) s = lit1 then dot_star (literal_group lit2) (drop (length lit1) s)
      else None)"

text \<open>The last expression, \<open>\/([A-Z0-9]{10})(?:\/|\?|$)\<close>.\<close>

definition slash_group_end :: "string \<Rightarrow> string option" where
  "slash_group_end s =
     (case s of
        [] \<Rightarrow> None
      | c # r \<Rightarrow>
          if c = CHR ''/'' \<and> capture_group r \<noteq> None
             \<and> (case drop 10 r of [] \<Rightarrow> True | d # _ \<Rightarrow> d = CHR ''/'' \<or> d = CHR ''?'')
          then capture_group r else None)"

fun search :: "(string \<Rightarrow> string option) \<Rightarrow> string \<Rightarrow> string option" where
  "search m [] = m []"
| "search m (c # cs) = (case m (c # cs) of Some g \<Rightarrow> Some g | None \<Rightarrow> search m cs)"

definition patterns :: "(string \<Rightarrow> string option) list" where
  "patterns =
     [literal_group ''amazon.co.jp/dp/'',
      literal_any_group ''amazon.co.jp/'' ''/dp/'',
      literal_group ''amazon.com/dp/'',
      literal_any_group ''amazon.com/'' ''/dp/'',
      slash_group_end]"

fun first_match :: "(string \<Rightarrow> string option) list \<Rightarrow> string \<Rightarrow> jsval" where
  "first_match [] url = JNull"
| "first_match (pattern # rest) url =
     (case search pattern url of Some g \<Rightarrow> JStr g | None \<Rightarrow> first_match rest url)"

definition extractASINFromUrl :: "string \<Rightarrow> jsval" where
  "extractASINFromUrl url = first_match patterns url"

section \<open>Properties of the record store\<close>

lemma truthy_of_valid: "isValidASIN v \<Longrightarrow> truthy v"
  by (cases v)
    (auto simp: isValidASIN_def asin_pattern_def string_of_nat.simps [of 0] split: if_splits)

lemma find_None_asin:
  "(List.find (\<lambda>book. asin_of book = a) bs = None) = (a \<notin> set (map asin_of bs))"
  by (auto simp: find_None_iff)

text \<open>
  Claim C9. \<open>addBookManually\<close> throws exactly when the ASIN of the input is missing, does
  not match \<open>^[A-Z0-9]{10}$\<close> or is already the ASIN of a book of the library. When it
  throws, the library and the storage are as before. When it returns, the books are the
  old books followed by one new record, whose source is \<open>manual_add\<close>, whose ASIN is the
  input's, and which is the returned value.
\<close>

theorem addBookManually_atomic:
  "(isl (fst (addBookManually e bookData s)) \<longleftrightarrow>
      asin_of bookData = JUndefined \<or> \<not> isValidASIN (asin_of bookData)
        \<or> asin_of bookData \<in> set (map asin_of (books (library s))))
   \<and> (isl (fst (addBookManually e bookData s)) \<longrightarrow> snd (addBookManually e bookData s) = s)
   \<and> (\<not> isl (fst (addBookManually e bookData s)) \<longrightarrow>
        (\<exists>newBook. fst (addBookManually e bookData s) = Inr newBook
           \<and> books (library (snd (addBookManually e bookData s)))
               = books (library s) @ [newBook]
           \<and> get_prop newBook ''source'' = JStr ''manual_add''
           \<and> asin_of newBook = asin_of bookData))"
proof -
  have new: "get_prop (manual_book e bookData) ''source'' = JStr ''manual_add''"
    "asin_of (manual_book e bookData) = asin_of bookData"
    by (simp_all add: manual_book_def get_prop_def)
  show ?thesis
    using truthy_of_valid [of "asin_of bookData"] new
    by (auto simp: addBookManually_def Let_def find_None_asin saveLibrary_def)
qed

theorem addBookManually_atomic_witness:
  "\<not> isl (fst (addBookManually \<lparr>Date_now = 1700000000000, JSON_stringify = (\<lambda>l. ''{}'')\<rparr>
       [(''asin'', JStr ''B000000001''), (''title'', JStr ''Dune'')] new_BookManager))
   \<and> isl (fst (addBookManually \<lparr>Date_now = 1700000000000, JSON_stringify = (\<lambda>l. ''{}'')\<rparr>
       [(''asin'', JStr ''b-1''), (''title'', JStr ''Dune'')] new_BookManager))
   \<and> snd (addBookManually \<lparr>Date_now = 1700000000000, JSON_stringify = (\<lambda>l. ''{}'')\<rparr>
       [(''asin'', JStr ''b-1''), (''title'', JStr ''Dune'')] new_BookManager) = new_BookManager
   \<and> (\<exists>newBook.
        fst (addBookManually \<lparr>Date_now = 1700000000000, JSON_stringify = (\<lambda>l. ''{}'')\<rparr>
          [(''asin'', JStr ''B000000001''), (''title'', JStr ''Dune'')] new_BookManager)
          = Inr newBook
        \<and> books (library (snd
            (addBookManually \<lparr>Date_now = 1700000000000, JSON_stringify = (\<lambda>l. ''{}'')\<rparr>
              [(''asin'', JStr ''B000000001''), (''title'', JStr ''Dune'')] new_BookManager)))
          = books (library new_BookManager) @ [newBook]
        \<and> get_prop newBook ''source'' = JStr ''manual_add''
        \<and> asin_of newBook = asin_of [(''asin'', JStr ''B000000001''), (''title'', JStr ''Dune'')])"
  using addBookManually_atomic [of "\<lparr>Date_now = 1700000000000, JSON_stringify = (\<lambda>l. ''{}'')\<rparr>"
      "[(''asin'', JStr ''B000000001''), (''title'', JStr ''Dune'')]" new_BookManager]
    addBookManually_atomic [of "\<lparr>Date_now = 1700000000000, JSON_stringify = (\<lambda>l. ''{}'')\<rparr>"
      "[(''asin'', JStr ''b-1''), (''title'', JStr ''Dune'')]" new_BookManager]
  by (simp add: get_prop_def isValidASIN_def asin_pattern_def asin_char_def new_BookManager_def)

lemma get_prop_set_prop:
  "get_prop (set_prop k v ob) k' = (if k' = k then v else get_prop ob k')"
  by (induction ob) (auto simp: get_prop_def)

lemma get_prop_Object_assign_other:
  "k \<notin> fst ` set src \<Longrightarrow> get_prop (Object_assign target src) k = get_prop target k"
  by (induction target src rule: Object_assign.induct) (auto simp: get_prop_set_prop)

lemma get_prop_kindle_record:
  "get_prop (kindle_record e book) f =
     (if f = ''addedDate'' then JNum (Date_now e)
      else if f = ''source'' then JStr ''kindle_import'' else get_prop book f)"
  by (simp add: kindle_record_def get_prop_set_prop)

lemma get_prop_kindle_update:
  "get_prop (Object_assign existing (kindle_update k)) f =
     (if f \<in> {''title'', ''authors'', ''acquiredTime'', ''readStatus'', ''productImage''}
      then get_prop k f else get_prop existing f)"
  by (simp add: kindle_update_def get_prop_set_prop)

lemma length_assign_found: "length (assign_found P src bs) = length bs"
  by (induction bs) auto

lemma map_asin_assign_found:
  "''asin'' \<notin> fst ` set src \<Longrightarrow> map asin_of (assign_found P src bs) = map asin_of bs"
  by (induction bs) (auto simp: get_prop_Object_assign_other)

lemma find_Some_asin:
  "List.find (\<lambda>book. asin_of book = a) bs = Some b \<Longrightarrow> a \<in> set (map asin_of bs) \<and> asin_of b = a"
  by (auto simp: find_Some_iff)

lemma import_body_counts:
  "import_body e k (bs, r) = (bs', r') \<Longrightarrow>
     added r' + updated r' + skipped r' = Suc (added r + updated r + skipped r)
     \<and> total r' = total r \<and> length bs' + added r = length bs + added r'"
  by (auto simp: import_body_def Let_def length_assign_found split: option.splits if_splits)

lemma import_loop_counts:
  "import_loop e ks (bs, r) = (bs', r') \<Longrightarrow>
     added r' + updated r' + skipped r' = added r + updated r + skipped r + length ks
     \<and> total r' = total r \<and> length bs' + added r = length bs + added r'"
proof (induction ks arbitrary: bs r)
  case Nil
  then show ?case by simp
next
  case (Cons k ks)
  obtain bs1 r1 where step: "import_body e k (bs, r) = (bs1, r1)"
    by (cases "import_body e k (bs, r)")
  from Cons.prems step have "import_loop e ks (bs1, r1) = (bs', r')" by simp
  from Cons.IH [OF this] import_body_counts [OF step] show ?case by simp
qed

text \<open>
  Claim C8. The counters returned by \<open>importFromKindle\<close> add up: added, updated and
  skipped sum to the total, the total is the number of incoming records, and the books
  array grows by exactly the number of added records.
\<close>

theorem importFromKindle_accounting:
  "\<exists>r. fst (importFromKindle e kindleBooks s) = Inr r
      \<and> added r + updated r + skipped r = total r
      \<and> total r = length kindleBooks
      \<and> length (books (library (snd (importFromKindle e kindleBooks s))))
          = length (books (library s)) + added r"
proof -
  obtain bs' r' where loop:
    "import_loop e kindleBooks
       (books (library s), \<lparr>total = length kindleBooks, added = 0, updated = 0, skipped = 0\<rparr>)
     = (bs', r')"
    by (cases "import_loop e kindleBooks
       (books (library s), \<lparr>total = length kindleBooks, added = 0, updated = 0, skipped = 0\<rparr>)")
  from import_loop_counts [OF loop] loop show ?thesis
    by (simp add: importFromKindle_def Let_def saveLibrary_def)
qed

lemma asin_kindle_record: "asin_of (kindle_record e book) = asin_of book"
  by (simp add: get_prop_kindle_record)

lemma asin_kindle_update: "asin_of (Object_assign existing (kindle_update k)) = asin_of existing"
  by (simp add: get_prop_kindle_update)

lemma map_asin_kindle_update:
  "map asin_of (assign_found P (kindle_update k) bs) = map asin_of bs"
  by (rule map_asin_assign_found) (simp add: kindle_update_def)

lemma import_body_books:
  "fst (import_body e k (bs, r)) =
     (case List.find (\<lambda>book. asin_of book = asin_of k) bs of
        Some existing \<Rightarrow>
          if shouldUpdateBook existing k
          then assign_found (\<lambda>book. asin_of book = asin_of k) (kindle_update k) bs else bs
      | None \<Rightarrow> bs @ [kindle_record e k])"
  by (simp add: import_body_def Let_def split: option.splits)

lemma import_body_asins:
  "map asin_of (fst (import_body e k (bs, r))) =
     (if asin_of k \<in> set (map asin_of bs) then map asin_of bs else map asin_of bs @ [asin_of k])"
proof (cases "List.find (\<lambda>book. asin_of book = asin_of k) bs")
  case None
  then show ?thesis
    using find_None_asin [of "asin_of k" bs]
    by (simp add: import_body_books asin_kindle_record)
next
  case (Some existing)
  then show ?thesis
    using find_Some_asin [OF Some]
    by (simp add: import_body_books map_asin_kindle_update)
qed

lemma import_body_distinct:
  "distinct (map asin_of bs) \<Longrightarrow> distinct (map asin_of (fst (import_body e k (bs, r))))"
  by (simp add: import_body_asins)

lemma import_loop_distinct:
  "distinct (map asin_of (fst st)) \<Longrightarrow> distinct (map asin_of (fst (import_loop e ks st)))"
proof (induction ks arbitrary: st)
  case Nil
  then show ?case by simp
next
  case (Cons k ks)
  have "distinct (map asin_of (fst (import_body e k st)))"
    using import_body_distinct [of "fst st" e k "snd st"] Cons.prems by simp
  from Cons.IH [OF this] show ?case by simp
qed

lemma selected_loop_books:
  "fst (selected_loop e ex sel (bs, im, du)) =
     bs @ map (kindle_record e) (filter (\<lambda>b. asin_of b \<notin> ex) sel)"
  by (induction sel arbitrary: bs im du) auto

lemma distinct_take_drop_Suc: "distinct ys \<Longrightarrow> distinct (take n ys @ drop (Suc n) ys)"
proof (induction ys arbitrary: n)
  case Nil
  then show ?case by simp
next
  case (Cons y ys)
  show ?case
  proof (cases n)
    case 0
    then show ?thesis using Cons.prems by simp
  next
    case (Suc m)
    have "y \<notin> set (take m ys)" "y \<notin> set (drop (Suc m) ys)"
      using Cons.prems by (auto dest: in_set_takeD in_set_dropD)
    then show ?thesis using Suc Cons.IH [of m] Cons.prems by simp
  qed
qed

lemma distinct_splice_remove:
  "distinct (map f xs) \<Longrightarrow> distinct (map f (splice_remove i xs))"
  using distinct_take_drop_Suc [of "map f xs" "nat i"]
  by (simp add: splice_remove_def take_map drop_map)

lemma asins_assign_found:
  "x \<in> set (assign_found P u bs) \<Longrightarrow>
     x \<in> set bs \<or> (\<exists>b\<in>set bs. P b \<and> x = Object_assign b u)"
  by (induction bs) (auto split: if_splits)

lemma distinct_assign_found:
  "distinct (map asin_of bs) \<Longrightarrow>
   (\<forall>b\<in>set bs. \<forall>b'\<in>set bs. asin_of b = a \<longrightarrow> asin_of b' \<noteq> a \<longrightarrow>
       asin_of (Object_assign b u) \<noteq> asin_of b') \<Longrightarrow>
   distinct (map asin_of (assign_found (\<lambda>b. asin_of b = a) u bs))"
proof (induction bs)
  case Nil
  then show ?case by simp
next
  case (Cons b bs)
  show ?case
  proof (cases "asin_of b = a")
    case True
    have "asin_of (Object_assign b u) \<noteq> asin_of b'" if "b' \<in> set bs" for b'
    proof -
      have "asin_of b' \<in> set (map asin_of bs)" using that by simp
      then have "asin_of b' \<noteq> a" using Cons.prems(1) True by force
      then show ?thesis using Cons.prems(2) True that by simp
    qed
    then show ?thesis using Cons.prems(1) True by auto
  next
    case False
    have ih: "distinct (map asin_of (assign_found (\<lambda>b. asin_of b = a) u bs))"
      using Cons.IH Cons.prems by simp
    have "asin_of b \<noteq> asin_of x" if "x \<in> set (assign_found (\<lambda>b. asin_of b = a) u bs)" for x
    proof -
      from asins_assign_found [OF that]
      consider "x \<in> set bs" | b0 where "b0 \<in> set bs" "asin_of b0 = a" "x = Object_assign b0 u"
        by blast
      then show ?thesis
      proof cases
        case 1
        then show ?thesis using Cons.prems(1) by auto
      next
        case 2
        then show ?thesis using Cons.prems(2) False by (metis list.set_intros(1) list.set_intros(2))
      qed
    qed
    then show ?thesis using ih False by auto
  qed
qed

lemma fresh_disjoint: "set ys \<inter> set (map f (filter (\<lambda>b. f b \<notin> set ys) xs)) = {}"
  by auto

text \<open>
  Claim C1, as amended. From a library whose books have pairwise distinct ASINs,
  \<open>addBookManually\<close>, \<open>importFromKindle\<close> and \<open>deleteBook\<close> leave the ASINs pairwise
  distinct for every input. \<open>updateBook\<close> does so when the ASIN that the updated book
  ends up with is not the ASIN of another book (in particular when \<open>updates\<close> has no
  \<open>asin\<close> property). \<open>importSelectedBooks\<close> does so when the selected books that are
  not yet in the library have pairwise distinct ASINs.
\<close>

theorem asin_keys_stay_distinct:
  assumes "distinct (map asin_of (books (library s)))"
  shows "distinct (map asin_of (books (library (snd (addBookManually e bookData s)))))
    \<and> distinct (map asin_of (books (library (snd (importFromKindle e kindleBooks s)))))
    \<and> distinct (map asin_of (books (library (snd (deleteBook e asin hardDelete s)))))
    \<and> ((\<forall>b\<in>set (books (library s)). \<forall>b'\<in>set (books (library s)).
           asin_of b = asin \<longrightarrow> asin_of b' \<noteq> asin \<longrightarrow>
           asin_of (Object_assign b updates) \<noteq> asin_of b') \<longrightarrow>
        distinct (map asin_of (books (library (snd (updateBook e asin updates s))))))
    \<and> (distinct (map asin_of
           (filter (\<lambda>b. asin_of b \<notin> set (map asin_of (books (library s)))) selectedBooks)) \<longrightarrow>
        distinct (map asin_of (books (library (snd (importSelectedBooks e selectedBooks s))))))"
proof (intro conjI impI)
  have new: "asin_of (manual_book e bookData) = asin_of bookData"
    by (simp add: manual_book_def get_prop_def)
  show "distinct (map asin_of (books (library (snd (addBookManually e bookData s)))))"
    using assms new
    by (auto simp: addBookManually_def Let_def find_None_asin saveLibrary_def)
  show "distinct (map asin_of (books (library (snd (importFromKindle e kindleBooks s)))))"
    using import_loop_distinct [of "(books (library s), r)" e kindleBooks for r] assms
    by (simp add: importFromKindle_def Let_def saveLibrary_def)
  show "distinct (map asin_of (books (library (snd (deleteBook e asin hardDelete s)))))"
    using assms distinct_splice_remove [of asin_of "books (library s)"]
    by (simp add: deleteBook_def Let_def saveLibrary_def)
next
  assume "\<forall>b\<in>set (books (library s)). \<forall>b'\<in>set (books (library s)).
           asin_of b = asin \<longrightarrow> asin_of b' \<noteq> asin \<longrightarrow>
           asin_of (Object_assign b updates) \<noteq> asin_of b'"
  from distinct_assign_found [OF assms this]
  show "distinct (map asin_of (books (library (snd (updateBook e asin updates s)))))"
    using assms by (simp add: updateBook_def saveLibrary_def split: option.splits)
next
  assume d: "distinct (map asin_of
           (filter (\<lambda>b. asin_of b \<notin> set (map asin_of (books (library s)))) selectedBooks))"
  have kr: "asin_of \<circ> kindle_record e = asin_of"
    by (rule ext) (simp add: asin_kindle_record)
  have "books (library (snd (importSelectedBooks e selectedBooks s))) =
      books (library s) @ map (kindle_record e)
        (filter (\<lambda>b. asin_of b \<notin> set (map asin_of (books (library s)))) selectedBooks)"
    by (simp add: importSelectedBooks_def Let_def saveLibrary_def selected_loop_books)
  then have "map asin_of (books (library (snd (importSelectedBooks e selectedBooks s)))) =
      map asin_of (books (library s)) @ map asin_of
        (filter (\<lambda>b. asin_of b \<notin> set (map asin_of (books (library s)))) selectedBooks)"
    by (simp add: kr)
  then show "distinct (map asin_of (books (library (snd (importSelectedBooks e selectedBooks s)))))"
    using assms d fresh_disjoint [of "map asin_of (books (library s))" asin_of selectedBooks]
    by (simp only: distinct_append)
qed

text \<open>
  The claim as stated fails twice: selecting the same fresh book twice appends it twice,
  and an update that writes the ASIN of another book makes two books share a key.
\<close>

theorem asin_keys_stay_distinct_counterexample:
  "distinct (map asin_of (books (library new_BookManager)))
   \<and> \<not> distinct (map asin_of (books (library (snd
         (importSelectedBooks \<lparr>Date_now = 1700000000000, JSON_stringify = (\<lambda>l. ''{}'')\<rparr>
            [[(''asin'', JStr ''B000000001''), (''title'', JStr ''Dune'')],
             [(''asin'', JStr ''B000000001''), (''title'', JStr ''Dune'')]]
            new_BookManager)))))
   \<and> distinct (map asin_of
         [[(''asin'', JStr ''B000000001'')], [(''asin'', JStr ''B000000002'')]])
   \<and> \<not> distinct (map asin_of (books (library (snd
         (updateBook \<lparr>Date_now = 1700000000000, JSON_stringify = (\<lambda>l. ''{}'')\<rparr>
            (JStr ''B000000001'') [(''asin'', JStr ''B000000002'')]
            (new_BookManager\<lparr>library := (library new_BookManager)
               \<lparr>books := [[(''asin'', JStr ''B000000001'')],
                           [(''asin'', JStr ''B000000002'')]]\<rparr>\<rparr>))))))"
  by (simp add: new_BookManager_def importSelectedBooks_def updateBook_def saveLibrary_def
      Let_def get_prop_def kindle_record_def)

text \<open>
  On a library of two books: a third book is added by hand; a Kindle file brings a new
  title for the first book and a new book twice; the first book is deleted; the first book
  gets a new title and a new ASIN that no other book has; and of three selected books one
  is in the library and two are new. The ASINs after each call are listed.
\<close>

theorem asin_keys_stay_distinct_witness:
  "distinct (map asin_of (books (library
         (new_BookManager\<lparr>library := (library new_BookManager)
               \<lparr>books := [[(''asin'', JStr ''B000000001''), (''title'', JStr ''Dune'')],
                           [(''asin'', JStr ''B000000002''), (''title'', JStr ''Emma'')]]\<rparr>\<rparr>))))
   \<and> map asin_of (books (library (snd
         (addBookManually \<lparr>Date_now = 1700000000000, JSON_stringify = (\<lambda>l. ''{}'')\<rparr>
            [(''asin'', JStr ''B000000003''), (''title'', JStr ''Walden'')]
            (new_BookManager\<lparr>library := (library new_BookManager)
               \<lparr>books := [[(''asin'', JStr ''B000000001''), (''title'', JStr ''Dune'')],
                           [(''asin'', JStr ''B000000002''), (''title'', JStr ''Emma'')]]\<rparr>\<rparr>)))))
       = [JStr ''B000000001'', JStr ''B000000002'', JStr ''B000000003'']
   \<and> distinct (map asin_of (books (library (snd
         (addBookManually \<lparr>Date_now = 1700000000000, JSON_stringify = (\<lambda>l. ''{}'')\<rparr>
            [(''asin'', JStr ''B000000003''), (''title'', JStr ''Walden'')]
            (new_BookManager\<lparr>library := (library new_BookManager)
               \<lparr>books := [[(''asin'', JStr ''B000000001''), (''title'', JStr ''Dune'')],
                           [(''asin'', JStr ''B000000002''), (''title'', JStr ''Emma'')]]\<rparr>\<rparr>))))))
   \<and> map asin_of (books (library (snd
         (importFromKindle \<lparr>Date_now = 1700000000000, JSON_stringify = (\<lambda>l. ''{}'')\<rparr>
            [[(''asin'', JStr ''B000000001''), (''title'', JStr ''Dune (new edition)'')],
             [(''asin'', JStr ''B000000004''), (''title'', JStr ''Kokoro'')],
             [(''asin'', JStr ''B000000004''), (''title'', JStr ''Kokoro'')]]
            (new_BookManager\<lparr>library := (library new_BookManager)
               \<lparr>books := [[(''asin'', JStr ''B000000001''), (''title'', JStr ''Dune'')],
                           [(''asin'', JStr ''B000000002''), (''title'', JStr ''Emma'')]]\<rparr>\<rparr>)))))
       = [JStr ''B000000001'', JStr ''B000000002'', JStr ''B000000004'']
   \<and> distinct (map asin_of (books (library (snd
         (importFromKindle \<lparr>Date_now = 1700000000000, JSON_stringify = (\<lambda>l. ''{}'')\<rparr>
            [[(''asin'', JStr ''B000000001''), (''title'', JStr ''Dune (new edition)'')],
             [(''asin'', JStr ''B000000004''), (''title'', JStr ''Kokoro'')],
             [(''asin'', JStr ''B000000004''), (''title'', JStr ''Kokoro'')]]
            (new_BookManager\<lparr>library := (library new_BookManager)
               \<lparr>books := [[(''asin'', JStr ''B000000001''), (''title'', JStr ''Dune'')],
                           [(''asin'', JStr ''B000000002''), (''title'', JStr ''Emma'')]]\<rparr>\<rparr>))))))
   \<and> map asin_of (books (library (snd
         (deleteBook \<lparr>Date_now = 1700000000000, JSON_stringify = (\<lambda>l. ''{}'')\<rparr>
            (JStr ''B000000001'') True
            (new_BookManager\<lparr>library := (library new_BookManager)
               \<lparr>books := [[(''asin'', JStr ''B000000001''), (''title'', JStr ''Dune'')],
                           [(''asin'', JStr ''B000000002''), (''title'', JStr ''Emma'')]]\<rparr>\<rparr>)))))
       = [JStr ''B000000002'']
   \<and> distinct (map asin_of (books (library (snd
         (deleteBook \<lparr>Date_now = 1700000000000, JSON_stringify = (\<lambda>l. ''{}'')\<rparr>
            (JStr ''B000000001'') True
            (new_BookManager\<lparr>library := (library new_BookManager)
               \<lparr>books := [[(''asin'', JStr ''B000000001''), (''title'', JStr ''Dune'')],
                           [(''asin'', JStr ''B000000002''), (''title'', JStr ''Emma'')]]\<rparr>\<rparr>))))))
   \<and> map asin_of (books (library (snd
         (updateBook \<lparr>Date_now = 1700000000000, JSON_stringify = (\<lambda>l. ''{}'')\<rparr>
            (JStr ''B000000001'') [(''title'', JStr ''Dune Messiah''), (''asin'', JStr ''B000000007'')]
            (new_BookManager\<lparr>library := (library new_BookManager)
               \<lparr>books := [[(''asin'', JStr ''B000000001''), (''title'', JStr ''Dune'')],
                           [(''asin'', JStr ''B000000002''), (''title'', JStr ''Emma'')]]\<rparr>\<rparr>)))))
       = [JStr ''B000000007'', JStr ''B000000002'']
   \<and> distinct (map asin_of (books (library (snd
         (updateBook \<lparr>Date_now = 1700000000000, JSON_stringify = (\<lambda>l. ''{}'')\<rparr>
            (JStr ''B000000001'') [(''title'', JStr ''Dune Messiah''), (''asin'', JStr ''B000000007'')]
            (new_BookManager\<lparr>library := (library new_BookManager)
               \<lparr>books := [[(''asin'', JStr ''B000000001''), (''title'', JStr ''Dune'')],
                           [(''asin'', JStr ''B000000002''), (''title'', JStr ''Emma'')]]\<rparr>\<rparr>))))))
   \<and> map asin_of (books (library (snd
         (importSelectedBooks \<lparr>Date_now = 1700000000000, JSON_stringify = (\<lambda>l. ''{}'')\<rparr>
            [[(''asin'', JStr ''B000000002''), (''title'', JStr ''Emma'')],
             [(''asin'', JStr ''B000000005''), (''title'', JStr ''Ulysses'')],
             [(''asin'', JStr ''B000000006''), (''title'', JStr ''Persuasion'')]]
            (new_BookManager\<lparr>library := (library new_BookManager)
               \<lparr>books := [[(''asin'', JStr ''B000000001''), (''title'', JStr ''Dune'')],
                           [(''asin'', JStr ''B000000002''), (''title'', JStr ''Emma'')]]\<rparr>\<rparr>)))))
       = [JStr ''B000000001'', JStr ''B000000002'', JStr ''B000000005'',
          JStr ''B000000006'']
   \<and> distinct (map asin_of (books (library (snd
         (importSelectedBooks \<lparr>Date_now = 1700000000000, JSON_stringify = (\<lambda>l. ''{}'')\<rparr>
            [[(''asin'', JStr ''B000000002''), (''title'', JStr ''Emma'')],
             [(''asin'', JStr ''B000000005''), (''title'', JStr ''Ulysses'')],
             [(''asin'', JStr ''B000000006''), (''title'', JStr ''Persuasion'')]]
            (new_BookManager\<lparr>library := (library new_BookManager)
               \<lparr>books := [[(''asin'', JStr ''B000000001''), (''title'', JStr ''Dune'')],
                           [(''asin'', JStr ''B000000002''), (''title'', JStr ''Emma'')]]\<rparr>\<rparr>))))))"
proof -
  let ?e = "\<lparr>Date_now = 1700000000000, JSON_stringify = (\<lambda>l. ''{}'')\<rparr>"
  let ?s = "(new_BookManager\<lparr>library := (library new_BookManager)
               \<lparr>books := [[(''asin'', JStr ''B000000001''), (''title'', JStr ''Dune'')],
                           [(''asin'', JStr ''B000000002''), (''title'', JStr ''Emma'')]]\<rparr>\<rparr>)"
  let ?updates = "[(''title'', JStr ''Dune Messiah''), (''asin'', JStr ''B000000007'')]"
  let ?selected = "[[(''asin'', JStr ''B000000002''), (''title'', JStr ''Emma'')],
             [(''asin'', JStr ''B000000005''), (''title'', JStr ''Ulysses'')],
             [(''asin'', JStr ''B000000006''), (''title'', JStr ''Persuasion'')]]"
  have d: "distinct (map asin_of (books (library ?s)))"
    by (simp add: new_BookManager_def get_prop_def)
  have u: "\<forall>b\<in>set (books (library ?s)). \<forall>b'\<in>set (books (library ?s)).
           asin_of b = JStr ''B000000001'' \<longrightarrow> asin_of b' \<noteq> JStr ''B000000001'' \<longrightarrow>
           asin_of (Object_assign b ?updates) \<noteq> asin_of b'"
    by (simp add: new_BookManager_def get_prop_def)
  have f: "distinct (map asin_of
           (filter (\<lambda>b. asin_of b \<notin> set (map asin_of (books (library ?s)))) ?selected))"
    by (simp add: new_BookManager_def get_prop_def)
  have m: "map asin_of (books (library (snd
         (addBookManually \<lparr>Date_now = 1700000000000, JSON_stringify = (\<lambda>l. ''{}'')\<rparr>
            [(''asin'', JStr ''B000000003''), (''title'', JStr ''Walden'')]
            (new_BookManager\<lparr>library := (library new_BookManager)
               \<lparr>books := [[(''asin'', JStr ''B000000001''), (''title'', JStr ''Dune'')],
                           [(''asin'', JStr ''B000000002''), (''title'', JStr ''Emma'')]]\<rparr>\<rparr>)))))
       = [JStr ''B000000001'', JStr ''B000000002'', JStr ''B000000003'']"
    "map asin_of (books (library (snd
         (importFromKindle \<lparr>Date_now = 1700000000000, JSON_stringify = (\<lambda>l. ''{}'')\<rparr>
            [[(''asin'', JStr ''B000000001''), (''title'', JStr ''Dune (new edition)'')],
             [(''asin'', JStr ''B000000004''), (''title'', JStr ''Kokoro'')],
             [(''asin'', JStr ''B000000004''), (''title'', JStr ''Kokoro'')]]
            (new_BookManager\<lparr>library := (library new_BookManager)
               \<lparr>books := [[(''asin'', JStr ''B000000001''), (''title'', JStr ''Dune'')],
                           [(''asin'', JStr ''B000000002''), (''title'', JStr ''Emma'')]]\<rparr>\<rparr>)))))
       = [JStr ''B000000001'', JStr ''B000000002'', JStr ''B000000004'']"
    "map asin_of (books (library (snd
         (deleteBook \<lparr>Date_now = 1700000000000, JSON_stringify = (\<lambda>l. ''{}'')\<rparr>
            (JStr ''B000000001'') True
            (new_BookManager\<lparr>library := (library new_BookManager)
               \<lparr>books := [[(''asin'', JStr ''B000000001''), (''title'', JStr ''Dune'')],
                           [(''asin'', JStr ''B000000002''), (''title'', JStr ''Emma'')]]\<rparr>\<rparr>)))))
       = [JStr ''B000000002'']"
    "map asin_of (books (library (snd
         (updateBook \<lparr>Date_now = 1700000000000, JSON_stringify = (\<lambda>l. ''{}'')\<rparr>
            (JStr ''B000000001'') [(''title'', JStr ''Dune Messiah''), (''asin'', JStr ''B000000007'')]
            (new_BookManager\<lparr>library := (library new_BookManager)
               \<lparr>books := [[(''asin'', JStr ''B000000001''), (''title'', JStr ''Dune'')],
                           [(''asin'', JStr ''B000000002''), (''title'', JStr ''Emma'')]]\<rparr>\<rparr>)))))
       = [JStr ''B000000007'', JStr ''B000000002'']"
    "map asin_of (books (library (snd
         (importSelectedBooks \<lparr>Date_now = 1700000000000, JSON_stringify = (\<lambda>l. ''{}'')\<rparr>
            [[(''asin'', JStr ''B000000002''), (''title'', JStr ''Emma'')],
             [(''asin'', JStr ''B000000005''), (''title'', JStr ''Ulysses'')],
             [(''asin'', JStr ''B000000006''), (''title'', JStr ''Persuasion'')]]
            (new_BookManager\<lparr>library := (library new_BookManager)
               \<lparr>books := [[(''asin'', JStr ''B000000001''), (''title'', JStr ''Dune'')],
                           [(''asin'', JStr ''B000000002''), (''title'', JStr ''Emma'')]]\<rparr>\<rparr>)))))
       = [JStr ''B000000001'', JStr ''B000000002'', JStr ''B000000005'',
          JStr ''B000000006'']"
    by (simp_all add: new_BookManager_def addBookManually_def importFromKindle_def deleteBook_def
      updateBook_def importSelectedBooks_def saveLibrary_def import_body_def
      shouldUpdateBook_def kindle_update_def kindle_record_def manual_book_def
      splice_remove_def isValidASIN_def asin_pattern_def asin_char_def Let_def get_prop_def)
  show ?thesis
    using d u f m asin_keys_stay_distinct [OF d, of ?e
        "[(''asin'', JStr ''B000000003''), (''title'', JStr ''Walden'')]"
        "[[(''asin'', JStr ''B000000001''), (''title'', JStr ''Dune (new edition)'')],
             [(''asin'', JStr ''B000000004''), (''title'', JStr ''Kokoro'')],
             [(''asin'', JStr ''B000000004''), (''title'', JStr ''Kokoro'')]]"
        "JStr ''B000000001''" True ?updates ?selected]
    by (simp only: simp_thms)
qed

text \<open>
  Claim C5. Each of the six mutating operations of the record store, when it returns,
  has written \<open>JSON.stringify(this.library)\<close> of the library it leaves behind under the
  key \<open>virtualBookshelf_library\<close>, so the stored copy is the serialised in-memory
  library. The three operations that can throw do so before they change anything: the
  library and the storage are then as before the call.
\<close>

theorem library_mirrored_to_localStorage:
  "(\<not> isl (fst (addBookManually e bookData s)) \<longrightarrow>
      localStorage (snd (addBookManually e bookData s)) ''virtualBookshelf_library''
        = Some (JSON_stringify e (library (snd (addBookManually e bookData s)))))
   \<and> localStorage (snd (importFromKindle e kindleBooks s)) ''virtualBookshelf_library''
        = Some (JSON_stringify e (library (snd (importFromKindle e kindleBooks s))))
   \<and> localStorage (snd (importSelectedBooks e selectedBooks s)) ''virtualBookshelf_library''
        = Some (JSON_stringify e (library (snd (importSelectedBooks e selectedBooks s))))
   \<and> (\<not> isl (fst (updateBook e asin updates s)) \<longrightarrow>
      localStorage (snd (updateBook e asin updates s)) ''virtualBookshelf_library''
        = Some (JSON_stringify e (library (snd (updateBook e asin updates s)))))
   \<and> (\<not> isl (fst (deleteBook e asin hardDelete s)) \<longrightarrow>
      localStorage (snd (deleteBook e asin hardDelete s)) ''virtualBookshelf_library''
        = Some (JSON_stringify e (library (snd (deleteBook e asin hardDelete s)))))
   \<and> localStorage (snd (clearAllBooks e s)) ''virtualBookshelf_library''
        = Some (JSON_stringify e (library (snd (clearAllBooks e s))))
   \<and> (isl (fst (addBookManually e bookData s)) \<longrightarrow> snd (addBookManually e bookData s) = s)
   \<and> (isl (fst (updateBook e asin updates s)) \<longrightarrow> snd (updateBook e asin updates s) = s)
   \<and> (isl (fst (deleteBook e asin hardDelete s)) \<longrightarrow> snd (deleteBook e asin hardDelete s) = s)"
proof (intro conjI)
  show "\<not> isl (fst (addBookManually e bookData s)) \<longrightarrow>
      localStorage (snd (addBookManually e bookData s)) ''virtualBookshelf_library''
        = Some (JSON_stringify e (library (snd (addBookManually e bookData s))))"
    by (simp add: addBookManually_def Let_def saveLibrary_def)
  show "localStorage (snd (importFromKindle e kindleBooks s)) ''virtualBookshelf_library''
        = Some (JSON_stringify e (library (snd (importFromKindle e kindleBooks s))))"
    by (simp add: importFromKindle_def Let_def saveLibrary_def)
  show "localStorage (snd (importSelectedBooks e selectedBooks s)) ''virtualBookshelf_library''
        = Some (JSON_stringify e (library (snd (importSelectedBooks e selectedBooks s))))"
    by (simp add: importSelectedBooks_def Let_def saveLibrary_def)
  show "\<not> isl (fst (updateBook e asin updates s)) \<longrightarrow>
      localStorage (snd (updateBook e asin updates s)) ''virtualBookshelf_library''
        = Some (JSON_stringify e (library (snd (updateBook e asin updates s))))"
    by (simp add: updateBook_def saveLibrary_def split: option.splits)
  show "\<not> isl (fst (deleteBook e asin hardDelete s)) \<longrightarrow>
      localStorage (snd (deleteBook e asin hardDelete s)) ''virtualBookshelf_library''
        = Some (JSON_stringify e (library (snd (deleteBook e asin hardDelete s))))"
    by (simp add: deleteBook_def Let_def saveLibrary_def)
  show "localStorage (snd (clearAllBooks e s)) ''virtualBookshelf_library''
        = Some (JSON_stringify e (library (snd (clearAllBooks e s))))"
    by (simp add: clearAllBooks_def saveLibrary_def)
  show "isl (fst (addBookManually e bookData s)) \<longrightarrow> snd (addBookManually e bookData s) = s"
    by (simp add: addBookManually_def Let_def)
  show "isl (fst (updateBook e asin updates s)) \<longrightarrow> snd (updateBook e asin updates s) = s"
    by (simp add: updateBook_def split: option.splits)
  show "isl (fst (deleteBook e asin hardDelete s)) \<longrightarrow> snd (deleteBook e asin hardDelete s) = s"
    by (simp add: deleteBook_def Let_def)
qed

theorem library_mirrored_to_localStorage_witness:
  "\<not> isl (fst (addBookManually
        \<lparr>Date_now = 1700000000000, JSON_stringify = (\<lambda>l. concat (map (ToString \<circ> asin_of) (books l)))\<rparr>
        [(''asin'', JStr ''B000000002'')]
        (new_BookManager\<lparr>library := (library new_BookManager)\<lparr>books := [[(''asin'', JStr ''B000000001'')]]\<rparr>\<rparr>)))
   \<and> localStorage (snd (addBookManually
        \<lparr>Date_now = 1700000000000, JSON_stringify = (\<lambda>l. concat (map (ToString \<circ> asin_of) (books l)))\<rparr>
        [(''asin'', JStr ''B000000002'')]
        (new_BookManager\<lparr>library := (library new_BookManager)\<lparr>books := [[(''asin'', JStr ''B000000001'')]]\<rparr>\<rparr>)))
        ''virtualBookshelf_library'' = Some ''B000000001B000000002''
   \<and> \<not> isl (fst (updateBook
        \<lparr>Date_now = 1700000000000, JSON_stringify = (\<lambda>l. concat (map (ToString \<circ> asin_of) (books l)))\<rparr>
        (JStr ''B000000001'') [(''title'', JStr ''Dune'')]
        (new_BookManager\<lparr>library := (library new_BookManager)\<lparr>books := [[(''asin'', JStr ''B000000001'')]]\<rparr>\<rparr>)))
   \<and> localStorage (snd (updateBook
        \<lparr>Date_now = 1700000000000, JSON_stringify = (\<lambda>l. concat (map (ToString \<circ> asin_of) (books l)))\<rparr>
        (JStr ''B000000001'') [(''title'', JStr ''Dune'')]
        (new_BookManager\<lparr>library := (library new_BookManager)\<lparr>books := [[(''asin'', JStr ''B000000001'')]]\<rparr>\<rparr>)))
        ''virtualBookshelf_library'' = Some ''B000000001''
   \<and> \<not> isl (fst (deleteBook
        \<lparr>Date_now = 1700000000000, JSON_stringify = (\<lambda>l. concat (map (ToString \<circ> asin_of) (books l)))\<rparr>
        (JStr ''B000000001'') True
        (new_BookManager\<lparr>library := (library new_BookManager)\<lparr>books := [[(''asin'', JStr ''B000000001'')]]\<rparr>\<rparr>)))
   \<and> localStorage (snd (deleteBook
        \<lparr>Date_now = 1700000000000, JSON_stringify = (\<lambda>l. concat (map (ToString \<circ> asin_of) (books l)))\<rparr>
        (JStr ''B000000001'') True
        (new_BookManager\<lparr>library := (library new_BookManager)\<lparr>books := [[(''asin'', JStr ''B000000001'')]]\<rparr>\<rparr>)))
        ''virtualBookshelf_library'' = Some ''''"
  using library_mirrored_to_localStorage [of
        "\<lparr>Date_now = 1700000000000, JSON_stringify = (\<lambda>l. concat (map (ToString \<circ> asin_of) (books l)))\<rparr>"
        "[(''asin'', JStr ''B000000002'')]"
        "new_BookManager\<lparr>library := (library new_BookManager)\<lparr>books := [[(''asin'', JStr ''B000000001'')]]\<rparr>\<rparr>"
        "[]" "[]" "JStr ''B000000001''" "[(''title'', JStr ''Dune'')]" True]
  by (simp add: new_BookManager_def addBookManually_def updateBook_def deleteBook_def Let_def
      saveLibrary_def get_prop_def isValidASIN_def asin_pattern_def asin_char_def manual_book_def
      js_or_def count_source_def splice_remove_def)

lemma import_loop_append:
  "import_loop e (xs @ ys) st = import_loop e ys (import_loop e xs st)"
  by (induction xs arbitrary: st) auto

lemma import_loop_books_indep:
  "fst (import_loop e ks (bs, r)) = fst (import_loop e ks (bs, r'))"
proof (induction ks arbitrary: bs r r')
  case Nil
  then show ?case by simp
next
  case (Cons k ks)
  obtain b1 r1 where s1: "import_body e k (bs, r) = (b1, r1)"
    by (cases "import_body e k (bs, r)")
  obtain b2 r2 where s2: "import_body e k (bs, r') = (b2, r2)"
    by (cases "import_body e k (bs, r')")
  have "b1 = b2"
    using import_body_books [of e k bs r] import_body_books [of e k bs r'] s1 s2 by simp
  then show ?case using s1 s2 Cons.IH [of b1 r1 r2] by simp
qed

lemma books_importFromKindle:
  "books (library (snd (importFromKindle e ks s))) = fst (import_loop e ks (books (library s), r))"
  using import_loop_books_indep [of e ks "books (library s)" _ r]
  by (simp add: importFromKindle_def Let_def saveLibrary_def)

lemma books_importFromKindle_snoc:
  "books (library (snd (importFromKindle e (pre @ [k]) s))) =
     fst (import_body e k (books (library (snd (importFromKindle e pre s))), r))"
proof -
  obtain bs1 r1 where l: "import_loop e pre (books (library s), r) = (bs1, r1)"
    by (cases "import_loop e pre (books (library s), r)")
  have "books (library (snd (importFromKindle e (pre @ [k]) s))) = fst (import_body e k (bs1, r1))"
    using l by (simp add: books_importFromKindle [where r = r] import_loop_append)
  moreover have "books (library (snd (importFromKindle e pre s))) = bs1"
    using l by (simp add: books_importFromKindle [where r = r])
  ultimately show ?thesis
    using import_body_books [of e k bs1 r1] import_body_books [of e k bs1 r] by simp
qed

lemma find_first_index:
  "List.find P bs = Some x \<Longrightarrow>
     \<exists>i<length bs. bs ! i = x \<and> P x \<and> assign_found P src bs = bs[i := Object_assign x src]"
proof (induction bs)
  case Nil
  then show ?case by simp
next
  case (Cons b bs)
  show ?case
  proof (cases "P b")
    case True
    then have "b = x" using Cons.prems by simp
    then show ?thesis using True by (intro exI [of _ 0]) simp
  next
    case False
    then have "List.find P bs = Some x" using Cons.prems by simp
    from Cons.IH [OF this] obtain i where
      "i < length bs" "bs ! i = x" "P x" "assign_found P src bs = bs[i := Object_assign x src]"
      by blast
    then show ?thesis using False by (intro exI [of _ "Suc i"]) simp
  qed
qed

lemma import_loop_asins_set:
  "set (map asin_of (fst (import_loop e ks (bs, r)))) = set (map asin_of bs) \<union> set (map asin_of ks)"
proof (induction ks arbitrary: bs r)
  case Nil
  then show ?case by simp
next
  case (Cons k ks)
  obtain b1 r1 where s1: "import_body e k (bs, r) = (b1, r1)"
    by (cases "import_body e k (bs, r)")
  have "set (map asin_of b1) = insert (asin_of k) (set (map asin_of bs))"
    using import_body_asins [of e k bs r] s1 by (auto split: if_splits)
  then show ?case using s1 Cons.IH [of b1 r1] by simp
qed

lemma import_body_length: "length bs \<le> length (fst (import_body e k (bs, r)))"
proof -
  have "length (map asin_of bs) \<le> length (map asin_of (fst (import_body e k (bs, r))))"
    by (simp only: import_body_asins split: if_splits) simp
  then show ?thesis by simp
qed

lemma nth_in_drop: "n \<le> i \<Longrightarrow> i < length bs \<Longrightarrow> bs ! i \<in> set (drop n bs)"
proof -
  assume a: "n \<le> i" "i < length bs"
  then have "drop n bs ! (i - n) = bs ! i" "i - n < length (drop n bs)" by simp_all
  then show ?thesis by (metis nth_mem)
qed

lemma import_loop_asins_prefix:
  "take (length bs) (map asin_of (fst (import_loop e ks (bs, r)))) = map asin_of bs"
proof (induction ks arbitrary: bs r)
  case Nil
  then show ?case by simp
next
  case (Cons k ks)
  obtain b1 r1 where s1: "import_body e k (bs, r) = (b1, r1)"
    by (cases "import_body e k (bs, r)")
  have b1: "take (length bs) (map asin_of b1) = map asin_of bs" "length bs \<le> length b1"
    using import_body_asins [of e k bs r] s1 import_body_length [of bs e k r]
    by (auto split: if_splits)
  have "take (length b1) (map asin_of (fst (import_loop e ks (b1, r1)))) = map asin_of b1"
    by (rule Cons.IH)
  then have "take (length bs) (take (length b1) (map asin_of (fst (import_loop e ks (b1, r1)))))
      = map asin_of bs"
    using b1(1) by simp
  then show ?case using s1 b1(2) by (simp add: min_absorb2)
qed

lemma source_kindle_update:
  "get_prop (Object_assign b (kindle_update k)) ''source'' = get_prop b ''source''"
  by (simp add: get_prop_kindle_update)

lemma import_body_sources:
  assumes "n \<le> length bs"
    and "\<forall>b\<in>set (drop n bs). get_prop b ''source'' = JStr ''kindle_import''"
  shows "\<forall>b\<in>set (drop n (fst (import_body e k (bs, r)))).
           get_prop b ''source'' = JStr ''kindle_import''"
proof (cases "List.find (\<lambda>book. asin_of book = asin_of k) bs")
  case None
  then show ?thesis
    using assms by (simp add: import_body_books get_prop_kindle_record)
next
  case (Some x)
  from find_first_index [OF Some, of "kindle_update k"] obtain i where i:
    "i < length bs" "bs ! i = x"
    "assign_found (\<lambda>book. asin_of book = asin_of k) (kindle_update k) bs
       = bs[i := Object_assign x (kindle_update k)]"
    by blast
  show ?thesis
  proof (cases "shouldUpdateBook x k \<and> n \<le> i")
    case True
    have "x \<in> set (drop n bs)"
      using i True nth_in_drop [of n i bs] by simp
    then have "get_prop (Object_assign x (kindle_update k)) ''source'' = JStr ''kindle_import''"
      using assms(2) by (simp add: source_kindle_update)
    moreover have "set ((drop n bs)[i - n := Object_assign x (kindle_update k)])
        \<subseteq> insert (Object_assign x (kindle_update k)) (set (drop n bs))"
      by (rule set_update_subset_insert)
    ultimately show ?thesis
      using Some True i assms(2) by (auto simp: import_body_books drop_update_swap)
  next
    case False
    then show ?thesis
      using Some i assms(2) by (auto simp: import_body_books drop_update_cancel)
  qed
qed

lemma import_loop_sources:
  "n \<le> length bs \<Longrightarrow>
   \<forall>b\<in>set (drop n bs). get_prop b ''source'' = JStr ''kindle_import'' \<Longrightarrow>
   \<forall>b\<in>set (drop n (fst (import_loop e ks (bs, r)))). get_prop b ''source'' = JStr ''kindle_import''"
proof (induction ks arbitrary: bs r)
  case Nil
  then show ?case by simp
next
  case (Cons k ks)
  obtain b1 r1 where s1: "import_body e k (bs, r) = (b1, r1)"
    by (cases "import_body e k (bs, r)")
  have "n \<le> length b1" using import_body_length [of bs e k r] s1 Cons.prems(1) by simp
  moreover have "\<forall>b\<in>set (drop n b1). get_prop b ''source'' = JStr ''kindle_import''"
    using import_body_sources [OF Cons.prems, of e k r] s1 by simp
  ultimately show ?case using Cons.IH [of b1 r1] s1 by simp
qed

lemma count_list_distinct: "distinct xs \<Longrightarrow> x \<in> set xs \<Longrightarrow> count_list xs x = 1"
  by (induction xs) (auto simp: count_list_0_iff)

text \<open>
  Claim C2. \<open>importFromKindle\<close> merges without duplicating. Let the library have
  pairwise distinct ASINs and let \<open>k\<close> be any incoming record, met by the loop with the
  books \<open>before\<close> (the outcome of importing the records in front of it). If the ASIN of
  \<open>k\<close> occurs in \<open>before\<close>, nothing is appended: when \<open>shouldUpdateBook\<close> holds, the one
  record with that ASIN gets the title, authors, acquiredTime, readStatus and
  productImage of \<open>k\<close> and keeps its other properties, and otherwise the books stay as
  they are. If the ASIN is fresh, one record is appended: \<open>k\<close> with source
  \<open>kindle_import\<close> and the import time. At the end the ASINs are still pairwise
  distinct, the old books keep their places and keys, the keys are the old ones and the
  incoming ones, every incoming ASIN is the key of exactly one book, and every appended
  record has source \<open>kindle_import\<close>.
\<close>

theorem importFromKindle_dedup_merge:
  assumes "distinct (map asin_of (books (library s)))"
    and "kindleBooks = pre @ k # post"
  shows
    "(let before = books (library (snd (importFromKindle e pre s)));
          after = books (library (snd (importFromKindle e (pre @ [k]) s)));
          final = books (library (snd (importFromKindle e kindleBooks s)))
      in (asin_of k \<in> set (map asin_of before) \<longrightarrow>
            (\<exists>i<length before. asin_of (before ! i) = asin_of k \<and>
               (if shouldUpdateBook (before ! i) k
                then \<exists>changed. after = before[i := changed] \<and>
                       (\<forall>f. get_prop changed f =
                          (if f \<in> {''title'', ''authors'', ''acquiredTime'', ''readStatus'',
                                    ''productImage''}
                           then get_prop k f else get_prop (before ! i) f))
                else after = before)))
       \<and> (asin_of k \<notin> set (map asin_of before) \<longrightarrow>
            (\<exists>new. after = before @ [new] \<and>
               (\<forall>f. get_prop new f =
                  (if f = ''addedDate'' then JNum (Date_now e)
                   else if f = ''source'' then JStr ''kindle_import'' else get_prop k f))))
       \<and> distinct (map asin_of before) \<and> distinct (map asin_of after)
       \<and> distinct (map asin_of final)
       \<and> take (length (books (library s))) (map asin_of final) = map asin_of (books (library s))
       \<and> set (map asin_of final) = set (map asin_of (books (library s))) \<union> set (map asin_of kindleBooks)
       \<and> (\<forall>a\<in>set (map asin_of kindleBooks). count_list (map asin_of final) a = 1)
       \<and> (\<forall>b\<in>set (drop (length (books (library s))) final).
            get_prop b ''source'' = JStr ''kindle_import''))"
proof -
  define r0 where "r0 = \<lparr>total = 0, added = 0, updated = 0, skipped = 0\<rparr>"
  define before where "before = books (library (snd (importFromKindle e pre s)))"
  define after where "after = books (library (snd (importFromKindle e (pre @ [k]) s)))"
  define final where "final = books (library (snd (importFromKindle e kindleBooks s)))"
  have step: "after = fst (import_body e k (before, r0))"
    unfolding after_def before_def by (rule books_importFromKindle_snoc)
  have fin: "final = fst (import_loop e kindleBooks (books (library s), r0))"
    unfolding final_def by (rule books_importFromKindle)
  have bef: "before = fst (import_loop e pre (books (library s), r0))"
    unfolding before_def by (rule books_importFromKindle)
  have aft: "after = fst (import_loop e (pre @ [k]) (books (library s), r0))"
    unfolding after_def by (rule books_importFromKindle)
  have d: "distinct (map asin_of before)" "distinct (map asin_of after)"
    "distinct (map asin_of final)"
    using assms(1) import_loop_distinct [of "(books (library s), r0)" e]
    by (simp_all add: bef aft fin)
  have known: "\<exists>i<length before. asin_of (before ! i) = asin_of k \<and>
        (if shouldUpdateBook (before ! i) k
         then \<exists>changed. after = before[i := changed] \<and>
                (\<forall>f. get_prop changed f =
                   (if f \<in> {''title'', ''authors'', ''acquiredTime'', ''readStatus'',
                             ''productImage''}
                    then get_prop k f else get_prop (before ! i) f))
         else after = before)"
    if "asin_of k \<in> set (map asin_of before)"
  proof -
    from that obtain x where x: "List.find (\<lambda>book. asin_of book = asin_of k) before = Some x"
      using find_None_asin [of "asin_of k" before] by (cases "List.find (\<lambda>book. asin_of book = asin_of k) before") auto
    from find_first_index [OF x, of "kindle_update k"] obtain i where i:
      "i < length before" "before ! i = x" "asin_of x = asin_of k"
      "assign_found (\<lambda>book. asin_of book = asin_of k) (kindle_update k) before
         = before[i := Object_assign x (kindle_update k)]"
      by blast
    show ?thesis
    proof (intro exI [of _ i] conjI)
      show "i < length before" by (rule i(1))
      show "asin_of (before ! i) = asin_of k" using i by simp
      show "if shouldUpdateBook (before ! i) k
         then \<exists>changed. after = before[i := changed] \<and>
                (\<forall>f. get_prop changed f =
                   (if f \<in> {''title'', ''authors'', ''acquiredTime'', ''readStatus'',
                             ''productImage''}
                    then get_prop k f else get_prop (before ! i) f))
         else after = before"
      proof (cases "shouldUpdateBook x k")
        case True
        have "after = before[i := Object_assign x (kindle_update k)]"
          using True x i(4) by (simp add: step import_body_books)
        moreover have "\<forall>f. get_prop (Object_assign x (kindle_update k)) f =
                   (if f \<in> {''title'', ''authors'', ''acquiredTime'', ''readStatus'',
                             ''productImage''}
                    then get_prop k f else get_prop x f)"
          by (simp only: get_prop_kindle_update) simp
        ultimately show ?thesis using True i(2) by (simp only: if_True) blast
      next
        case False
        then show ?thesis using x i(2) by (simp add: step import_body_books)
      qed
    qed
  qed
  have fresh: "\<exists>new. after = before @ [new] \<and>
               (\<forall>f. get_prop new f =
                  (if f = ''addedDate'' then JNum (Date_now e)
                   else if f = ''source'' then JStr ''kindle_import'' else get_prop k f))"
    if "asin_of k \<notin> set (map asin_of before)"
  proof -
    have "List.find (\<lambda>book. asin_of book = asin_of k) before = None"
      using that find_None_asin [of "asin_of k" before] by simp
    then have "after = before @ [kindle_record e k]"
      by (simp add: step import_body_books)
    then show ?thesis
      using get_prop_kindle_record [of e k] by blast
  qed
  have pre: "take (length (books (library s))) (map asin_of final) = map asin_of (books (library s))"
    unfolding fin by (rule import_loop_asins_prefix)
  have sets: "set (map asin_of final) = set (map asin_of (books (library s))) \<union> set (map asin_of kindleBooks)"
    unfolding fin by (rule import_loop_asins_set)
  have src: "\<forall>b\<in>set (drop (length (books (library s))) final).
            get_prop b ''source'' = JStr ''kindle_import''"
    unfolding fin by (rule import_loop_sources) simp_all
  have cnt: "\<forall>a\<in>set (map asin_of kindleBooks). count_list (map asin_of final) a = 1"
    using d(3) sets by (simp add: count_list_distinct)
  show ?thesis
    using known fresh d pre sets src cnt
    unfolding Let_def before_def [symmetric] after_def [symmetric] final_def [symmetric]
    by blast
qed

theorem importFromKindle_dedup_merge_witness:
  "distinct (map asin_of (books (library
      (new_BookManager\<lparr>library := (library new_BookManager)
         \<lparr>books := [[(''asin'', JStr ''B000000001''), (''title'', JStr ''Dune''),
                     (''source'', JStr ''manual_add'')]]\<rparr>\<rparr>))))
   \<and> [[(''asin'', JStr ''B000000001''), (''title'', JStr ''Dune Messiah'')],
       [(''asin'', JStr ''B000000002''), (''title'', JStr ''Emma'')]]
      = [[(''asin'', JStr ''B000000001''), (''title'', JStr ''Dune Messiah'')]]
        @ [(''asin'', JStr ''B000000002''), (''title'', JStr ''Emma'')] # []
   \<and> books (library (snd (importFromKindle
        \<lparr>Date_now = 1700000000000, JSON_stringify = (\<lambda>l. ''{}'')\<rparr>
        [[(''asin'', JStr ''B000000001''), (''title'', JStr ''Dune Messiah'')],
         [(''asin'', JStr ''B000000002''), (''title'', JStr ''Emma'')]]
        (new_BookManager\<lparr>library := (library new_BookManager)
           \<lparr>books := [[(''asin'', JStr ''B000000001''), (''title'', JStr ''Dune''),
                       (''source'', JStr ''manual_add'')]]\<rparr>\<rparr>))))
      = [[(''asin'', JStr ''B000000001''), (''title'', JStr ''Dune Messiah''),
          (''source'', JStr ''manual_add''), (''authors'', JUndefined),
          (''acquiredTime'', JUndefined), (''readStatus'', JUndefined),
          (''productImage'', JUndefined)],
         [(''asin'', JStr ''B000000002''), (''title'', JStr ''Emma''),
          (''source'', JStr ''kindle_import''), (''addedDate'', JNum 1700000000000)]]
   \<and> distinct (map asin_of (books (library (snd (importFromKindle
        \<lparr>Date_now = 1700000000000, JSON_stringify = (\<lambda>l. ''{}'')\<rparr>
        [[(''asin'', JStr ''B000000001''), (''title'', JStr ''Dune Messiah'')],
         [(''asin'', JStr ''B000000002''), (''title'', JStr ''Emma'')]]
        (new_BookManager\<lparr>library := (library new_BookManager)
           \<lparr>books := [[(''asin'', JStr ''B000000001''), (''title'', JStr ''Dune''),
                       (''source'', JStr ''manual_add'')]]\<rparr>\<rparr>))))))"
  using importFromKindle_dedup_merge [of
      "new_BookManager\<lparr>library := (library new_BookManager)
         \<lparr>books := [[(''asin'', JStr ''B000000001''), (''title'', JStr ''Dune''),
                     (''source'', JStr ''manual_add'')]]\<rparr>\<rparr>"
      "[[(''asin'', JStr ''B000000001''), (''title'', JStr ''Dune Messiah'')],
        [(''asin'', JStr ''B000000002''), (''title'', JStr ''Emma'')]]"
      "[[(''asin'', JStr ''B000000001''), (''title'', JStr ''Dune Messiah'')]]"
      "[(''asin'', JStr ''B000000002''), (''title'', JStr ''Emma'')]" "[]"
      "\<lparr>Date_now = 1700000000000, JSON_stringify = (\<lambda>l. ''{}'')\<rparr>"]
  by (simp add: new_BookManager_def importFromKindle_def import_body_def Let_def saveLibrary_def
      get_prop_def shouldUpdateBook_def kindle_update_def kindle_record_def count_source_def)

section \<open>Properties of the presentation layer\<close>

lemma findIndex_range: "- 1 \<le> findIndex P xs \<and> findIndex P xs < int (length xs)"
  by (induction xs) (auto simp: Let_def)

lemma findIndex_none: "(findIndex P xs = - 1) = (\<forall>x\<in>set xs. \<not> P x)"
proof (induction xs)
  case Nil
  then show ?case by simp
next
  case (Cons x xs)
  then show ?case using findIndex_range [of P xs] by (auto simp: Let_def)
qed

lemma indexOf_none: "(indexOf xs v = - 1) = (v \<notin> set xs)"
  by (auto simp: indexOf_def findIndex_none)

lemma indexOf_range: "- 1 \<le> indexOf xs v \<and> indexOf xs v < int (length xs)"
  by (simp add: indexOf_def findIndex_range)

lemma compare_listed:
  "listed c a \<Longrightarrow> listed c b \<Longrightarrow>
     (custom_compare c a b \<le> 0) = (indexOf c (asin_of a) \<le> indexOf c (asin_of b))"
  by (simp add: custom_compare_def Let_def indexOf_none)

lemma compare_unlisted_left: "\<not> listed c a \<Longrightarrow> (custom_compare c a b \<le> 0) = (\<not> listed c b)"
  by (simp add: custom_compare_def Let_def indexOf_none)

lemma compare_unlisted_right: "listed c a \<Longrightarrow> \<not> listed c b \<Longrightarrow> custom_compare c a b \<le> 0"
  by (simp add: custom_compare_def Let_def indexOf_none)

lemma insert_unlisted:
  "\<not> listed c x \<Longrightarrow> \<forall>b\<in>set ordered. listed c b \<Longrightarrow> \<forall>b\<in>set others. \<not> listed c b \<Longrightarrow>
     sort_insert (custom_compare c) x (ordered @ others) = ordered @ x # others"
proof (induction ordered)
  case Nil
  then show ?case by (cases others) (simp_all add: compare_unlisted_left)
next
  case (Cons y ordered)
  then show ?case by (simp add: compare_unlisted_left)
qed

lemma insert_listed:
  "listed c x \<Longrightarrow> \<forall>b\<in>set others. \<not> listed c b \<Longrightarrow>
     sort_insert (custom_compare c) x (ordered @ others)
       = sort_insert (custom_compare c) x ordered @ others"
proof (induction ordered)
  case Nil
  then show ?case by (cases others) (simp_all add: compare_unlisted_right)
next
  case (Cons y ordered)
  then show ?case by simp
qed

lemma mset_sort_insert: "mset (sort_insert cmp x xs) = add_mset x (mset xs)"
  by (induction xs) auto

lemma set_sort_insert: "set (sort_insert cmp x xs) = insert x (set xs)"
  by (induction xs) auto

lemma mset_Array_sort: "mset (Array_sort cmp xs) = mset xs"
  by (induction xs) (auto simp: mset_sort_insert)

lemma set_Array_sort: "set (Array_sort cmp xs) = set xs"
  using mset_Array_sort [of cmp xs] by (metis set_mset_mset)

lemma Array_sort_split:
  "Array_sort (custom_compare c) xs
     = Array_sort (custom_compare c) (filter (listed c) xs) @ filter (\<lambda>b. \<not> listed c b) xs"
proof (induction xs)
  case Nil
  then show ?case by simp
next
  case (Cons x xs)
  have ordered: "\<forall>b\<in>set (Array_sort (custom_compare c) (filter (listed c) xs)). listed c b"
    by (simp add: set_Array_sort)
  have others: "\<forall>b\<in>set (filter (\<lambda>b. \<not> listed c b) xs). \<not> listed c b"
    by simp
  show ?case
  proof (cases "listed c x")
    case True
    then show ?thesis using Cons.IH insert_listed [OF True others] by simp
  next
    case False
    then show ?thesis using Cons.IH insert_unlisted [OF False ordered others] by simp
  qed
qed

lemma sorted_sort_insert:
  "listed c x \<Longrightarrow> \<forall>b\<in>set xs. listed c b \<Longrightarrow>
   sorted (map (\<lambda>b. indexOf c (asin_of b)) xs) \<Longrightarrow>
   sorted (map (\<lambda>b. indexOf c (asin_of b)) (sort_insert (custom_compare c) x xs))"
proof (induction xs)
  case Nil
  then show ?case by simp
next
  case (Cons y ys)
  show ?case
  proof (cases "custom_compare c x y \<le> 0")
    case True
    then have "indexOf c (asin_of x) \<le> indexOf c (asin_of y)"
      using Cons.prems compare_listed [where c = c and a = x and b = y] by simp
    then show ?thesis using True Cons.prems by auto
  next
    case False
    then have le: "indexOf c (asin_of y) \<le> indexOf c (asin_of x)"
      using Cons.prems compare_listed [where c = c and a = x and b = y] by simp
    have "sorted (map (\<lambda>b. indexOf c (asin_of b)) (sort_insert (custom_compare c) x ys))"
      using Cons by simp
    moreover have "\<forall>z\<in>set (sort_insert (custom_compare c) x ys).
        indexOf c (asin_of y) \<le> indexOf c (asin_of z)"
    proof
      fix z assume "z \<in> set (sort_insert (custom_compare c) x ys)"
      then have "z = x \<or> z \<in> set ys" by (simp add: set_sort_insert)
      then show "indexOf c (asin_of y) \<le> indexOf c (asin_of z)"
        using le Cons.prems(3) by auto
    qed
    ultimately show ?thesis using False by simp
  qed
qed

lemma sorted_Array_sort:
  "\<forall>b\<in>set xs. listed c b \<Longrightarrow>
   sorted (map (\<lambda>b. indexOf c (asin_of b)) (Array_sort (custom_compare c) xs))"
proof (induction xs)
  case Nil
  then show ?case by simp
next
  case (Cons x xs)
  then show ?case using sorted_sort_insert [where c = c and x = x and xs = "Array_sort (custom_compare c) xs"]
    by (simp add: set_Array_sort)
qed

text \<open>
  The comparator is the order of \<open>custom_rank\<close>, and the model of \<open>sort\<close> is the stable
  sort of the library by that key: the sorted list is determined by the comparator and
  does not depend on the sorting algorithm, as long as it is stable.
\<close>

lemma compare_by_rank:
  "(custom_compare c a b \<le> 0) = (custom_rank c a \<le> custom_rank c b)"
  using indexOf_range [of c "asin_of a"] indexOf_range [of c "asin_of b"]
  by (auto simp: custom_compare_def custom_rank_def Let_def)

lemma sort_insert_by_rank:
  "sort_insert (custom_compare c) x ys = insort_key (custom_rank c) x ys"
  by (induction ys) (simp_all add: compare_by_rank)

lemma Array_sort_by_rank:
  "Array_sort (custom_compare c) xs = sort_key (custom_rank c) xs"
  by (induction xs) (simp_all add: sort_insert_by_rank)

text \<open>
  Claim C3. With the sort order \<open>custom\<close> and a custom order for the selected bookshelf,
  \<open>renderStandardView\<close> sorts the filtered books with the comparator. The books whose
  ASIN occurs in the custom order come first: the first \<open>n\<close> books shown are exactly
  those books, in ascending order of their index in the custom order. The remaining
  books follow in the order they had among the filtered books.
\<close>

theorem custom_order_display:
  "(let shown = booksToRender currentBookshelfId
                  (vb\<lparr>sortOrder := ''custom'',
                      bookOrder := (bookOrder vb)(currentBookshelfId \<mapsto> customOrder)\<rparr>);
        n = length (filter (\<lambda>b. asin_of b \<in> set customOrder) (filteredBooks vb))
    in shown = Array_sort (custom_compare customOrder) (filteredBooks vb)
     \<and> mset (take n shown) = mset (filter (\<lambda>b. asin_of b \<in> set customOrder) (filteredBooks vb))
     \<and> sorted (map (\<lambda>b. indexOf customOrder (asin_of b)) (take n shown))
     \<and> drop n shown = filter (\<lambda>b. asin_of b \<notin> set customOrder) (filteredBooks vb))"
proof -
  define ordered where
    "ordered = Array_sort (custom_compare customOrder) (filter (listed customOrder) (filteredBooks vb))"
  have len: "length ordered = length (filter (listed customOrder) (filteredBooks vb))"
    using mset_Array_sort [of "custom_compare customOrder" "filter (listed customOrder) (filteredBooks vb)"]
    unfolding ordered_def by (metis size_mset)
  have split: "Array_sort (custom_compare customOrder) (filteredBooks vb)
      = ordered @ filter (\<lambda>b. \<not> listed customOrder b) (filteredBooks vb)"
    unfolding ordered_def by (rule Array_sort_split)
  have "mset ordered = mset (filter (listed customOrder) (filteredBooks vb))"
    unfolding ordered_def by (rule mset_Array_sort)
  moreover have "sorted (map (\<lambda>b. indexOf customOrder (asin_of b)) ordered)"
    unfolding ordered_def by (rule sorted_Array_sort) simp
  ultimately show ?thesis
    using len by (simp add: booksToRender_def Let_def split)
qed

lemma findIndex_first:
  "findIndex P xs \<noteq> - 1 \<Longrightarrow>
     \<exists>pre x post. xs = pre @ x # post \<and> P x \<and> (\<forall>y\<in>set pre. \<not> P y)
        \<and> findIndex P xs = int (length pre)"
proof (induction xs)
  case Nil
  then show ?case by simp
next
  case (Cons a xs)
  show ?case
  proof (cases "P a")
    case True
    then show ?thesis by (intro exI [of _ "[]"] exI [of _ a] exI [of _ xs]) simp
  next
    case False
    then have "findIndex P xs \<noteq> - 1" using Cons.prems by (auto simp: Let_def split: if_splits)
    from Cons.IH [OF this] obtain pre x post where
      "xs = pre @ x # post" "P x" "\<forall>y\<in>set pre. \<not> P y" "findIndex P xs = int (length pre)"
      by blast
    then show ?thesis using False
      by (intro exI [of _ "a # pre"] exI [of _ x] exI [of _ post]) (auto simp: Let_def)
  qed
qed

lemma indexOf_first:
  "v \<in> set xs \<Longrightarrow>
     \<exists>pre post. xs = pre @ v # post \<and> v \<notin> set pre \<and> indexOf xs v = int (length pre)"
  using findIndex_first [of "\<lambda>x. x = v" xs] indexOf_none [of xs v]
  unfolding indexOf_def by blast

lemma splice_remove_at: "splice_remove (int (length pre)) (pre @ v # post) = pre @ post"
  by (simp add: splice_remove_def)

lemma splice_insert_at:
  "splice_insert (int (length pre)) d (pre @ post) = pre @ d # post"
  by (simp add: splice_insert_def)

lemma filter_neq_id: "d \<notin> set xs \<Longrightarrow> filter (\<lambda>x. x \<noteq> d) xs = xs"
  by (induction xs) auto

lemma reorder_inserted:
  assumes "t \<in> set order" and "d \<noteq> t" and "count_list order d \<le> 1"
  shows "\<exists>pre post.
      (let pushed = (if d \<notin> set order then order @ [d] else order);
           draggedIndex = indexOf pushed d;
           removed = (if draggedIndex \<noteq> - 1 then splice_remove draggedIndex pushed else pushed);
           targetIndex = indexOf removed t
       in (if targetIndex \<noteq> - 1 then splice_insert targetIndex d removed else removed @ [d]))
        = pre @ d # t # post
      \<and> d \<notin> set pre \<and> d \<notin> set post \<and> t \<notin> set pre
      \<and> pre @ t # post = filter (\<lambda>x. x \<noteq> d) order"
proof -
  define pushed where "pushed = (if d \<notin> set order then order @ [d] else order)"
  have in_pushed: "d \<in> set pushed" by (simp add: pushed_def)
  from indexOf_first [OF in_pushed] obtain p1 p2 where p:
    "pushed = p1 @ d # p2" "d \<notin> set p1" "indexOf pushed d = int (length p1)"
    by blast
  have once: "d \<notin> set p2"
  proof (cases "d \<in> set order")
    case True
    then have "count_list (p1 @ d # p2) d \<le> 1" using assms(3) p(1) by (simp add: pushed_def)
    then have "count_list p2 d = 0" by simp
    then show ?thesis by (simp add: count_list_0_iff)
  next
    case False
    then have eq: "p1 @ d # p2 = order @ [d]" using p(1) by (simp add: pushed_def)
    have "p2 = []"
    proof (rule ccontr)
      assume "p2 \<noteq> []"
      then obtain q z where "p2 = q @ [z]" by (metis rev_exhaust)
      then have "order @ [d] = (p1 @ d # q) @ [z]" using eq by simp
      then have "order = p1 @ d # q" by (simp only: append1_eq_conv)
      then show False using False by simp
    qed
    then show ?thesis by simp
  qed
  define removed where "removed = p1 @ p2"
  have rem: "(if indexOf pushed d \<noteq> - 1 then splice_remove (indexOf pushed d) pushed else pushed)
      = removed"
    using p by (simp add: removed_def splice_remove_at)
  have filt: "removed = filter (\<lambda>x. x \<noteq> d) order"
  proof -
    have "filter (\<lambda>x. x \<noteq> d) pushed = removed"
      using p(1,2) once by (simp add: removed_def filter_neq_id)
    moreover have "filter (\<lambda>x. x \<noteq> d) pushed = filter (\<lambda>x. x \<noteq> d) order"
      by (simp add: pushed_def)
    ultimately show ?thesis by simp
  qed
  have "t \<in> set removed" using assms(1,2) by (simp add: filt)
  from indexOf_first [OF this] obtain pre post where q:
    "removed = pre @ t # post" "t \<notin> set pre" "indexOf removed t = int (length pre)"
    by blast
  have ins: "(if indexOf removed t \<noteq> - 1 then splice_insert (indexOf removed t) d removed
             else removed @ [d]) = pre @ d # t # post"
    using q by (simp add: splice_insert_at)
  have "d \<notin> set removed" using p(2) once by (simp add: removed_def)
  then have "d \<notin> set pre" "d \<notin> set post" using q(1) by simp_all
  then show ?thesis
    using rem ins q filt
    unfolding Let_def pushed_def [symmetric]
    by (intro exI [of _ pre] exI [of _ post]) simp
qed

text \<open>
  Claim C4, as amended. Let the custom order of the selected bookshelf contain the
  target ASIN, and the dragged ASIN, which differs from the target, at most once. After
  \<open>reorderBooks\<close> the order holds the dragged ASIN exactly once, immediately in front of
  the first occurrence of the target, and the other keys are in the order they had.
\<close>

theorem reorderBooks_single_move:
  assumes "bookOrder vb currentBookshelfId = Some order"
    and "targetASIN \<in> set order"
    and "draggedASIN \<noteq> targetASIN"
    and "count_list order draggedASIN \<le> 1"
  shows "\<exists>pre post.
      bookOrder (reorderBooks draggedASIN targetASIN currentBookshelfId vb) currentBookshelfId
        = Some (pre @ draggedASIN # targetASIN # post)
      \<and> draggedASIN \<notin> set pre \<and> draggedASIN \<notin> set post \<and> targetASIN \<notin> set pre
      \<and> filter (\<lambda>x. x \<noteq> draggedASIN) (pre @ draggedASIN # targetASIN # post)
          = filter (\<lambda>x. x \<noteq> draggedASIN) order"
proof -
  have ne: "order \<noteq> []" using assms(2) by auto
  from reorder_inserted [OF assms(2,3,4)] obtain pre post where r:
    "(let pushed = (if draggedASIN \<notin> set order then order @ [draggedASIN] else order);
           draggedIndex = indexOf pushed draggedASIN;
           removed = (if draggedIndex \<noteq> - 1 then splice_remove draggedIndex pushed else pushed);
           targetIndex = indexOf removed targetASIN
       in (if targetIndex \<noteq> - 1 then splice_insert targetIndex draggedASIN removed
           else removed @ [draggedASIN]))
        = pre @ draggedASIN # targetASIN # post"
    "draggedASIN \<notin> set pre" "draggedASIN \<notin> set post" "targetASIN \<notin> set pre"
    "pre @ targetASIN # post = filter (\<lambda>x. x \<noteq> draggedASIN) order"
    by blast
  define result where "result =
      (let pushed = (if draggedASIN \<notin> set order then order @ [draggedASIN] else order);
           draggedIndex = indexOf pushed draggedASIN;
           removed = (if draggedIndex \<noteq> - 1 then splice_remove draggedIndex pushed else pushed);
           targetIndex = indexOf removed targetASIN
       in (if targetIndex \<noteq> - 1 then splice_insert targetIndex draggedASIN removed
           else removed @ [draggedASIN]))"
  have "bookOrder (reorderBooks draggedASIN targetASIN currentBookshelfId vb)
        currentBookshelfId = Some result"
    unfolding result_def using assms(1) ne by (simp add: reorderBooks_def Let_def)
  moreover have "result = pre @ draggedASIN # targetASIN # post"
    unfolding result_def by (rule r(1))
  ultimately have stored: "bookOrder (reorderBooks draggedASIN targetASIN currentBookshelfId vb)
        currentBookshelfId = Some (pre @ draggedASIN # targetASIN # post)"
    by simp
  have "filter (\<lambda>x. x \<noteq> draggedASIN) (pre @ draggedASIN # targetASIN # post)
      = pre @ targetASIN # post"
    using r(2,3) assms(3) by (simp add: filter_neq_id)
  then have same: "filter (\<lambda>x. x \<noteq> draggedASIN) (pre @ draggedASIN # targetASIN # post)
      = filter (\<lambda>x. x \<noteq> draggedASIN) order"
    using r(5) by simp
  show ?thesis
    using stored r(2,3,4) same by (intro exI [of _ pre] exI [of _ post] conjI)
qed

text \<open>
  Without the bound on the occurrences the claim fails: \<open>splice(draggedIndex, 1)\<close> takes
  out the first occurrence only, so a dragged ASIN that is listed twice is listed twice
  afterwards.
\<close>

theorem reorderBooks_single_move_counterexample:
  "JStr ''B000000002'' \<in> set [JStr ''B000000001'', JStr ''B000000002'', JStr ''B000000001'']
   \<and> JStr ''B000000001'' \<noteq> JStr ''B000000002''
   \<and> bookOrder (reorderBooks (JStr ''B000000001'') (JStr ''B000000002'') ''all''
        \<lparr>userNotes = Map.empty,
         bookOrder = [''all'' \<mapsto> [JStr ''B000000001'', JStr ''B000000002'', JStr ''B000000001'']],
         filteredBooks = [], sortOrder = ''title''\<rparr>) ''all''
       = Some [JStr ''B000000001'', JStr ''B000000002'', JStr ''B000000001'']
   \<and> count_list [JStr ''B000000001'', JStr ''B000000002'', JStr ''B000000001'']
        (JStr ''B000000001'') = 2"
  by (simp add: reorderBooks_def Let_def indexOf_def splice_remove_def splice_insert_def)

theorem reorderBooks_single_move_witness:
  "[''all'' \<mapsto> [JStr ''B000000001'', JStr ''B000000002'', JStr ''B000000003'']] ''all''
       = Some [JStr ''B000000001'', JStr ''B000000002'', JStr ''B000000003'']
   \<and> JStr ''B000000001'' \<in> set [JStr ''B000000001'', JStr ''B000000002'', JStr ''B000000003'']
   \<and> JStr ''B000000003'' \<noteq> JStr ''B000000001''
   \<and> count_list [JStr ''B000000001'', JStr ''B000000002'', JStr ''B000000003'']
        (JStr ''B000000003'') \<le> 1
   \<and> bookOrder (reorderBooks (JStr ''B000000003'') (JStr ''B000000001'') ''all''
        \<lparr>userNotes = Map.empty,
         bookOrder = [''all'' \<mapsto> [JStr ''B000000001'', JStr ''B000000002'', JStr ''B000000003'']],
         filteredBooks = [], sortOrder = ''title''\<rparr>) ''all''
       = Some [JStr ''B000000003'', JStr ''B000000001'', JStr ''B000000002'']"
  using reorderBooks_single_move [of
      "\<lparr>userNotes = Map.empty,
         bookOrder = [''all'' \<mapsto> [JStr ''B000000001'', JStr ''B000000002'', JStr ''B000000003'']],
         filteredBooks = [], sortOrder = ''title''\<rparr>"
      "''all''" "[JStr ''B000000001'', JStr ''B000000002'', JStr ''B000000003'']"
      "JStr ''B000000001''" "JStr ''B000000003''"]
  by (simp add: reorderBooks_def Let_def indexOf_def splice_remove_def splice_insert_def)

text \<open>
  What \<open>saveRating\<close> and \<open>saveNote\<close> do, by the value of \<open>notes[asin]\<close> they find: an
  annotation of the notes object, an object inherited under one of the twelve names, a
  truthy primitive inherited from \<open>Object.prototype\<close>, or nothing.
\<close>

lemma saveRating_cases:
  "saveRating asin r pg =
     (case userNotes (bookshelf pg) asin of
        Some n \<Rightarrow> Inr (set_note asin (n\<lparr>rating := r\<rparr>) pg)
      | None \<Rightarrow>
          if asin \<in> set Object_prototype_names
          then Inr (pg\<lparr>inherited := (inherited pg)(asin := set_prop ''rating'' r (inherited pg asin))\<rparr>)
          else if truthy (get_prop (inherited pg ''__proto__'') asin) then Inl TypeError
          else Inr (set_note asin \<lparr>memo = JStr [], rating = r\<rparr> pg))"
  by (simp add: saveRating_def Let_def init_note_def notes_get_def set_note_def
      split: option.splits)

lemma saveNote_cases:
  "saveNote asin m pg =
     (case userNotes (bookshelf pg) asin of
        Some n \<Rightarrow> Inr (set_note asin (n\<lparr>memo := m\<rparr>) pg)
      | None \<Rightarrow>
          if asin \<in> set Object_prototype_names
          then Inr (pg\<lparr>inherited := (inherited pg)(asin := set_prop ''memo'' m (inherited pg asin))\<rparr>)
          else if truthy (get_prop (inherited pg ''__proto__'') asin) then Inl TypeError
          else Inr (set_note asin \<lparr>memo = m, rating = JNum 0\<rparr> pg))"
  by (simp add: saveNote_def Let_def init_note_def notes_get_def set_note_def
      split: option.splits)

text \<open>
  Claim C7, as amended. Let all ratings of the annotations be integers from 0 to 5.
  \<open>saveRating\<close> and \<open>saveNote\<close> throw exactly when the notes object has no property
  \<open>asin\<close> of its own, \<open>asin\<close> is none of the twelve names of \<open>Object.prototype\<close>, and
  a truthy value has been written onto \<open>Object.prototype\<close> under \<open>asin\<close>. When they
  return, the annotations are as before except at \<open>asin\<close>. There \<open>saveRating\<close> stores
  the rating it is given, whatever it is, in the annotation it finds or in a new one
  with an empty memo; so the ratings stay in the range when the rating given is an
  integer from 0 to 5. \<open>saveNote\<close> stores the memo in the annotation it finds, whose
  rating it keeps, or in a new one with the rating 0; so the ratings stay in the range.
  Under one of the twelve names neither makes an annotation: the value goes onto the
  inherited object.
\<close>

theorem rating_range_kept:
  assumes "\<forall>a n. userNotes (bookshelf pg) a = Some n \<longrightarrow> (\<exists>i. rating n = JNum i \<and> 0 \<le> i \<and> i \<le> 5)"
  shows "(saveRating asin r pg = Inl TypeError \<longleftrightarrow>
            userNotes (bookshelf pg) asin = None \<and> asin \<notin> set Object_prototype_names
            \<and> truthy (get_prop (inherited pg ''__proto__'') asin))
    \<and> (saveNote asin m pg = Inl TypeError \<longleftrightarrow>
            userNotes (bookshelf pg) asin = None \<and> asin \<notin> set Object_prototype_names
            \<and> truthy (get_prop (inherited pg ''__proto__'') asin))
    \<and> (\<forall>pg'. saveRating asin r pg = Inr pg' \<longrightarrow>
          userNotes (bookshelf pg') =
            (case userNotes (bookshelf pg) asin of
               Some n \<Rightarrow> (userNotes (bookshelf pg))(asin \<mapsto> n\<lparr>rating := r\<rparr>)
             | None \<Rightarrow>
                 if asin \<in> set Object_prototype_names then userNotes (bookshelf pg)
                 else (userNotes (bookshelf pg))(asin \<mapsto> \<lparr>memo = JStr [], rating = r\<rparr>))
          \<and> inherited pg' =
              (if userNotes (bookshelf pg) asin = None \<and> asin \<in> set Object_prototype_names
               then (inherited pg)(asin := set_prop ''rating'' r (inherited pg asin))
               else inherited pg)
          \<and> ((\<exists>i. r = JNum i \<and> 0 \<le> i \<and> i \<le> 5) \<longrightarrow>
               (\<forall>a n. userNotes (bookshelf pg') a = Some n \<longrightarrow>
                  (\<exists>i. rating n = JNum i \<and> 0 \<le> i \<and> i \<le> 5))))
    \<and> (\<forall>pg'. saveNote asin m pg = Inr pg' \<longrightarrow>
          userNotes (bookshelf pg') =
            (case userNotes (bookshelf pg) asin of
               Some n \<Rightarrow> (userNotes (bookshelf pg))(asin \<mapsto> n\<lparr>memo := m\<rparr>)
             | None \<Rightarrow>
                 if asin \<in> set Object_prototype_names then userNotes (bookshelf pg)
                 else (userNotes (bookshelf pg))(asin \<mapsto> \<lparr>memo = m, rating = JNum 0\<rparr>))
          \<and> inherited pg' =
              (if userNotes (bookshelf pg) asin = None \<and> asin \<in> set Object_prototype_names
               then (inherited pg)(asin := set_prop ''memo'' m (inherited pg asin))
               else inherited pg)
          \<and> (\<forall>a n. userNotes (bookshelf pg') a = Some n \<longrightarrow>
                (\<exists>i. rating n = JNum i \<and> 0 \<le> i \<and> i \<le> 5)))"
proof (intro conjI allI impI)
  show "saveRating asin r pg = Inl TypeError \<longleftrightarrow>
            userNotes (bookshelf pg) asin = None \<and> asin \<notin> set Object_prototype_names
            \<and> truthy (get_prop (inherited pg ''__proto__'') asin)"
    by (simp add: saveRating_cases split: option.splits)
next
  show "saveNote asin m pg = Inl TypeError \<longleftrightarrow>
            userNotes (bookshelf pg) asin = None \<and> asin \<notin> set Object_prototype_names
            \<and> truthy (get_prop (inherited pg ''__proto__'') asin)"
    by (simp add: saveNote_cases split: option.splits)
next
  fix pg' assume "saveRating asin r pg = Inr pg'"
  then show "userNotes (bookshelf pg') =
            (case userNotes (bookshelf pg) asin of
               Some n \<Rightarrow> (userNotes (bookshelf pg))(asin \<mapsto> n\<lparr>rating := r\<rparr>)
             | None \<Rightarrow>
                 if asin \<in> set Object_prototype_names then userNotes (bookshelf pg)
                 else (userNotes (bookshelf pg))(asin \<mapsto> \<lparr>memo = JStr [], rating = r\<rparr>))"
    by (auto simp: saveRating_cases set_note_def split: option.splits if_splits)
next
  fix pg' assume "saveRating asin r pg = Inr pg'"
  then show "inherited pg' =
              (if userNotes (bookshelf pg) asin = None \<and> asin \<in> set Object_prototype_names
               then (inherited pg)(asin := set_prop ''rating'' r (inherited pg asin))
               else inherited pg)"
    by (auto simp: saveRating_cases set_note_def split: option.splits if_splits)
next
  fix pg' a n
  assume "saveRating asin r pg = Inr pg'" "\<exists>i. r = JNum i \<and> 0 \<le> i \<and> i \<le> 5"
    "userNotes (bookshelf pg') a = Some n"
  then show "\<exists>i. rating n = JNum i \<and> 0 \<le> i \<and> i \<le> 5"
    using assms by (auto simp: saveRating_cases set_note_def split: option.splits if_splits)
next
  fix pg' assume "saveNote asin m pg = Inr pg'"
  then show "userNotes (bookshelf pg') =
            (case userNotes (bookshelf pg) asin of
               Some n \<Rightarrow> (userNotes (bookshelf pg))(asin \<mapsto> n\<lparr>memo := m\<rparr>)
             | None \<Rightarrow>
                 if asin \<in> set Object_prototype_names then userNotes (bookshelf pg)
                 else (userNotes (bookshelf pg))(asin \<mapsto> \<lparr>memo = m, rating = JNum 0\<rparr>))"
    by (auto simp: saveNote_cases set_note_def split: option.splits if_splits)
next
  fix pg' assume "saveNote asin m pg = Inr pg'"
  then show "inherited pg' =
              (if userNotes (bookshelf pg) asin = None \<and> asin \<in> set Object_prototype_names
               then (inherited pg)(asin := set_prop ''memo'' m (inherited pg asin))
               else inherited pg)"
    by (auto simp: saveNote_cases set_note_def split: option.splits if_splits)
next
  fix pg' a n
  assume "saveNote asin m pg = Inr pg'" "userNotes (bookshelf pg') a = Some n"
  then show "\<exists>i. rating n = JNum i \<and> 0 \<le> i \<and> i \<le> 5"
    using assms by (auto simp: saveNote_cases set_note_def split: option.splits if_splits)
qed

text \<open>The rating 7 is stored as it is: nothing on the way clamps or rejects it.\<close>

theorem rating_range_kept_counterexample:
  "userNotes (bookshelf \<lparr>bookshelf = \<lparr>userNotes = Map.empty, bookOrder = Map.empty,
                                      filteredBooks = [], sortOrder = ''custom''\<rparr>,
                         inherited = (\<lambda>k. [])\<rparr>) = Map.empty
   \<and> saveRating ''B000000001'' (JNum 7)
         \<lparr>bookshelf = \<lparr>userNotes = Map.empty, bookOrder = Map.empty,
                       filteredBooks = [], sortOrder = ''custom''\<rparr>,
          inherited = (\<lambda>k. [])\<rparr>
       = Inr \<lparr>bookshelf = \<lparr>userNotes = [''B000000001'' \<mapsto> \<lparr>memo = JStr [], rating = JNum 7\<rparr>],
                           bookOrder = Map.empty, filteredBooks = [], sortOrder = ''custom''\<rparr>,
              inherited = (\<lambda>k. [])\<rparr>
   \<and> \<not> (\<exists>i. JNum 7 = JNum i \<and> 0 \<le> i \<and> i \<le> 5)
   \<and> \<not> (\<forall>a n. [''B000000001'' \<mapsto> \<lparr>memo = JStr [], rating = JNum 7\<rparr>] a = Some n \<longrightarrow>
           (\<exists>i. rating n = JNum i \<and> 0 \<le> i \<and> i \<le> 5))"
  by (auto simp: saveRating_def init_note_def notes_get_def set_note_def get_prop_def
      Object_prototype_names_def Let_def intro!: exI [of _ "''B000000001''"])

text \<open>
  On notes that hold one annotation, of rating 4: a memo and a rating for a book without
  an annotation, a memo and a rating for the book that has one, a memo under the name
  \<open>constructor\<close>, and a memo under the key \<open>memo\<close> after \<open>Object.prototype.memo\<close> has been
  written.
\<close>

theorem rating_range_kept_witness:
  "(\<exists>pg'. saveNote ''B000000002'' (JStr ''new'')
            \<lparr>bookshelf = \<lparr>userNotes = [''B000000001'' \<mapsto> \<lparr>memo = JStr ''old'', rating = JNum 4\<rparr>],
                          bookOrder = Map.empty, filteredBooks = [], sortOrder = ''custom''\<rparr>,
             inherited = (\<lambda>k. [])\<rparr> = Inr pg'
          \<and> userNotes (bookshelf pg') ''B000000002'' = Some \<lparr>memo = JStr ''new'', rating = JNum 0\<rparr>
          \<and> userNotes (bookshelf pg') ''B000000001'' = Some \<lparr>memo = JStr ''old'', rating = JNum 4\<rparr>)
   \<and> (\<exists>pg'. saveNote ''B000000001'' (JStr ''new'')
            \<lparr>bookshelf = \<lparr>userNotes = [''B000000001'' \<mapsto> \<lparr>memo = JStr ''old'', rating = JNum 4\<rparr>],
                          bookOrder = Map.empty, filteredBooks = [], sortOrder = ''custom''\<rparr>,
             inherited = (\<lambda>k. [])\<rparr> = Inr pg'
          \<and> userNotes (bookshelf pg') ''B000000001'' = Some \<lparr>memo = JStr ''new'', rating = JNum 4\<rparr>
          \<and> userNotes (bookshelf pg') ''B000000002'' = None)
   \<and> (\<exists>i. JNum 3 = JNum i \<and> 0 \<le> i \<and> i \<le> 5)
   \<and> (\<exists>pg'. saveRating ''B000000002'' (JNum 3)
            \<lparr>bookshelf = \<lparr>userNotes = [''B000000001'' \<mapsto> \<lparr>memo = JStr ''old'', rating = JNum 4\<rparr>],
                          bookOrder = Map.empty, filteredBooks = [], sortOrder = ''custom''\<rparr>,
             inherited = (\<lambda>k. [])\<rparr> = Inr pg'
          \<and> userNotes (bookshelf pg') ''B000000002'' = Some \<lparr>memo = JStr [], rating = JNum 3\<rparr>
          \<and> userNotes (bookshelf pg') ''B000000001'' = Some \<lparr>memo = JStr ''old'', rating = JNum 4\<rparr>)
   \<and> (\<exists>pg'. saveRating ''B000000001'' (JNum 3)
            \<lparr>bookshelf = \<lparr>userNotes = [''B000000001'' \<mapsto> \<lparr>memo = JStr ''old'', rating = JNum 4\<rparr>],
                          bookOrder = Map.empty, filteredBooks = [], sortOrder = ''custom''\<rparr>,
             inherited = (\<lambda>k. [])\<rparr> = Inr pg'
          \<and> userNotes (bookshelf pg') ''B000000001'' = Some \<lparr>memo = JStr ''old'', rating = JNum 3\<rparr>)
   \<and> (\<exists>pg'. saveNote ''constructor'' (JStr ''new'')
            \<lparr>bookshelf = \<lparr>userNotes = [''B000000001'' \<mapsto> \<lparr>memo = JStr ''old'', rating = JNum 4\<rparr>],
                          bookOrder = Map.empty, filteredBooks = [], sortOrder = ''custom''\<rparr>,
             inherited = (\<lambda>k. [])\<rparr> = Inr pg'
          \<and> userNotes (bookshelf pg') ''constructor'' = None
          \<and> inherited pg' ''constructor'' = [(''memo'', JStr ''new'')])
   \<and> saveNote ''memo'' (JStr ''new'')
        \<lparr>bookshelf = \<lparr>userNotes = [''B000000001'' \<mapsto> \<lparr>memo = JStr ''old'', rating = JNum 4\<rparr>],
                      bookOrder = Map.empty, filteredBooks = [], sortOrder = ''custom''\<rparr>,
         inherited = (\<lambda>k. if k = ''__proto__'' then [(''memo'', JStr ''kept'')] else [])\<rparr>
       = Inl TypeError"
proof -
  let ?vb = "\<lparr>userNotes = [''B000000001'' \<mapsto> \<lparr>memo = JStr ''old'', rating = JNum 4\<rparr>],
              bookOrder = Map.empty, filteredBooks = [], sortOrder = ''custom''\<rparr>"
  let ?P = "\<lparr>bookshelf = ?vb, inherited = (\<lambda>k. [])\<rparr>"
  let ?Q = "\<lparr>bookshelf = ?vb,
             inherited = (\<lambda>k. if k = ''__proto__'' then [(''memo'', JStr ''kept'')] else [])\<rparr>"
  have h: "\<forall>a n. userNotes (bookshelf ?P) a = Some n \<longrightarrow> (\<exists>i. rating n = JNum i \<and> 0 \<le> i \<and> i \<le> 5)"
    by (auto split: if_splits)
  have h': "\<forall>a n. userNotes (bookshelf ?Q) a = Some n \<longrightarrow> (\<exists>i. rating n = JNum i \<and> 0 \<le> i \<and> i \<le> 5)"
    by (auto split: if_splits)
  have names: "''B000000002'' \<notin> set Object_prototype_names" "''memo'' \<notin> set Object_prototype_names"
    "''B000000001'' \<notin> set Object_prototype_names" "''constructor'' \<in> set Object_prototype_names"
    by (simp_all add: Object_prototype_names_def)
  have s1: "saveNote ''B000000002'' (JStr ''new'') ?P \<noteq> Inl TypeError"
    and s2: "saveRating ''B000000002'' (JNum 3) ?P \<noteq> Inl TypeError"
    and t1: "\<And>pg'. saveNote ''B000000002'' (JStr ''new'') ?P = Inr pg' \<Longrightarrow>
       userNotes (bookshelf pg') = [''B000000001'' \<mapsto> \<lparr>memo = JStr ''old'', rating = JNum 4\<rparr>,
         ''B000000002'' \<mapsto> \<lparr>memo = JStr ''new'', rating = JNum 0\<rparr>]"
    and t2: "\<And>pg'. saveRating ''B000000002'' (JNum 3) ?P = Inr pg' \<Longrightarrow>
       userNotes (bookshelf pg') = [''B000000001'' \<mapsto> \<lparr>memo = JStr ''old'', rating = JNum 4\<rparr>,
         ''B000000002'' \<mapsto> \<lparr>memo = JStr [], rating = JNum 3\<rparr>]"
    using rating_range_kept [OF h, of "''B000000002''" "JNum 3" "JStr ''new''"] names
    by (simp_all add: get_prop_def)
  have s3: "saveNote ''B000000001'' (JStr ''new'') ?P \<noteq> Inl TypeError"
    and s4: "saveRating ''B000000001'' (JNum 3) ?P \<noteq> Inl TypeError"
    and t3: "\<And>pg'. saveNote ''B000000001'' (JStr ''new'') ?P = Inr pg' \<Longrightarrow>
       userNotes (bookshelf pg') = [''B000000001'' \<mapsto> \<lparr>memo = JStr ''new'', rating = JNum 4\<rparr>]"
    and t4: "\<And>pg'. saveRating ''B000000001'' (JNum 3) ?P = Inr pg' \<Longrightarrow>
       userNotes (bookshelf pg') = [''B000000001'' \<mapsto> \<lparr>memo = JStr ''old'', rating = JNum 3\<rparr>]"
    using rating_range_kept [OF h, of "''B000000001''" "JNum 3" "JStr ''new''"] names
    by (simp_all add: get_prop_def)
  have s5: "saveNote ''constructor'' (JStr ''new'') ?P \<noteq> Inl TypeError"
    and t5: "\<And>pg'. saveNote ''constructor'' (JStr ''new'') ?P = Inr pg' \<Longrightarrow>
       userNotes (bookshelf pg') = [''B000000001'' \<mapsto> \<lparr>memo = JStr ''old'', rating = JNum 4\<rparr>]"
    and i5: "\<And>pg'. saveNote ''constructor'' (JStr ''new'') ?P = Inr pg' \<Longrightarrow>
       inherited pg' ''constructor'' = [(''memo'', JStr ''new'')]"
    using rating_range_kept [OF h, of "''constructor''" "JNum 3" "JStr ''new''"] names
    by (simp_all add: get_prop_def)
  have s6: "saveNote ''memo'' (JStr ''new'') ?Q = Inl TypeError"
    using rating_range_kept [OF h', of "''memo''" "JNum 3" "JStr ''new''"] names
    by (simp add: get_prop_def)
  have ex: "\<And>x. x \<noteq> Inl TypeError \<Longrightarrow> \<exists>pg'. x = Inr pg'"
    by (metis js_exception.exhaust sum.exhaust_sel sum.collapse(1))
  have c1: "\<exists>pg'. saveNote ''B000000002'' (JStr ''new'') ?P = Inr pg'
          \<and> userNotes (bookshelf pg') ''B000000002'' = Some \<lparr>memo = JStr ''new'', rating = JNum 0\<rparr>
          \<and> userNotes (bookshelf pg') ''B000000001'' = Some \<lparr>memo = JStr ''old'', rating = JNum 4\<rparr>"
    using ex [OF s1] t1 by auto
  have c2: "\<exists>pg'. saveNote ''B000000001'' (JStr ''new'') ?P = Inr pg'
          \<and> userNotes (bookshelf pg') ''B000000001'' = Some \<lparr>memo = JStr ''new'', rating = JNum 4\<rparr>
          \<and> userNotes (bookshelf pg') ''B000000002'' = None"
    using ex [OF s3] t3 by auto
  have c3: "\<exists>i. JNum 3 = JNum i \<and> 0 \<le> i \<and> i \<le> 5"
    by simp
  have c4: "\<exists>pg'. saveRating ''B000000002'' (JNum 3) ?P = Inr pg'
          \<and> userNotes (bookshelf pg') ''B000000002'' = Some \<lparr>memo = JStr [], rating = JNum 3\<rparr>
          \<and> userNotes (bookshelf pg') ''B000000001'' = Some \<lparr>memo = JStr ''old'', rating = JNum 4\<rparr>"
    using ex [OF s2] t2 by auto
  have c5: "\<exists>pg'. saveRating ''B000000001'' (JNum 3) ?P = Inr pg'
          \<and> userNotes (bookshelf pg') ''B000000001'' = Some \<lparr>memo = JStr ''old'', rating = JNum 3\<rparr>"
    using ex [OF s4] t4 by auto
  have c6: "\<exists>pg'. saveNote ''constructor'' (JStr ''new'') ?P = Inr pg'
          \<and> userNotes (bookshelf pg') ''constructor'' = None
          \<and> inherited pg' ''constructor'' = [(''memo'', JStr ''new'')]"
    using ex [OF s5] t5 i5 by auto
  show ?thesis
    by (intro conjI c1 c2 c3 c4 c5 c6 s6)
qed

section \<open>Properties of export and reload\<close>

lemma mset_insert_index: "mset (insert_index n k v ps) = add_mset (k, v) (mset ps)"
  by (induction ps) (auto split: option.splits)

lemma mset_define_key_fresh:
  "map_of ps k = None \<Longrightarrow> mset (define_key k v ps) = add_mset (k, v) (mset ps)"
  by (simp add: define_key_def mset_insert_index split: option.splits)

lemma mset_assign_key_fresh:
  "k \<noteq> ''__proto__'' \<Longrightarrow> map_of ps k = None \<Longrightarrow>
     mset (assign_key k v ps) = add_mset (k, v) (mset ps)"
  by (simp add: assign_key_def mset_define_key_fresh)

lemma keys_mset: "set (map fst ps) = fst ` set_mset (mset ps)"
  by simp

lemma distinct_keys_mset:
  "mset ps = mset qs \<Longrightarrow> distinct (map fst ps) = distinct (map fst qs)"
proof -
  assume "mset ps = mset qs"
  then have "mset (map fst ps) = mset (map fst qs)" by (metis mset_map)
  then show ?thesis by (metis distinct_count_atmost_1 set_mset_mset mset_eq_setD)
qed

lemma export_books_mset:
  assumes "\<forall>b\<in>set bs. truthy (asin_of b) \<and> ToString (asin_of b) \<noteq> ''__proto__''"
    and "distinct (map (\<lambda>b. ToString (asin_of b)) bs)"
    and "\<forall>b\<in>set bs. ToString (asin_of b) \<notin> fst ` set acc"
  shows "mset (export_books e pg bs acc)
      = mset acc + mset (map (\<lambda>b. (ToString (asin_of b), exported_book e pg b)) bs)"
  using assms
proof (induction bs arbitrary: acc)
  case Nil
  then show ?case by simp
next
  case (Cons b bs)
  let ?k = "ToString (asin_of b)"
  let ?acc = "assign_key ?k (exported_book e pg b) acc"
  have fresh: "map_of acc ?k = None"
    using Cons.prems(3) by (simp add: map_of_eq_None_iff)
  have "?k \<noteq> ''__proto__''" using Cons.prems(1) by simp
  then have m: "mset ?acc = add_mset (?k, exported_book e pg b) (mset acc)"
    using fresh by (rule mset_assign_key_fresh)
  have "fst ` set ?acc = insert ?k (fst ` set acc)"
    using m by (metis (no_types, lifting) image_insert fst_conv set_mset_add_mset_insert set_mset_mset)
  moreover have "ToString (asin_of b') \<noteq> ?k" if "b' \<in> set bs" for b'
  proof -
    have "?k \<notin> set (map (\<lambda>b. ToString (asin_of b)) bs)" using Cons.prems(2) by simp
    moreover have "ToString (asin_of b') \<in> set (map (\<lambda>b. ToString (asin_of b)) bs)"
      using that by simp
    ultimately show ?thesis by metis
  qed
  ultimately have "\<forall>b'\<in>set bs. ToString (asin_of b') \<notin> fst ` set ?acc"
    using Cons.prems(3) by simp
  then have "mset (export_books e pg bs ?acc)
      = mset ?acc + mset (map (\<lambda>b. (ToString (asin_of b), exported_book e pg b)) bs)"
    using Cons.IH [of ?acc] Cons.prems(1,2) by simp
  then show ?case using Cons.prems(1) m by simp
qed


lemma parse_members_mset:
  assumes "distinct (map fst ms)" and "\<forall>p\<in>set ms. fst p \<notin> fst ` set acc"
  shows "mset (foldl (\<lambda>ob p. define_key (fst p) (f (snd p)) ob) acc ms)
      = mset acc + mset (map (\<lambda>p. (fst p, f (snd p))) ms)"
  using assms
proof (induction ms arbitrary: acc)
  case Nil
  then show ?case by simp
next
  case (Cons p ms)
  let ?acc = "define_key (fst p) (f (snd p)) acc"
  have fresh: "map_of acc (fst p) = None"
    using Cons.prems(2) by (simp add: map_of_eq_None_iff)
  then have m: "mset ?acc = add_mset (fst p, f (snd p)) (mset acc)"
    by (rule mset_define_key_fresh)
  have "set ?acc = insert (fst p, f (snd p)) (set acc)"
    using m by (metis set_mset_add_mset_insert set_mset_mset)
  then have "fst ` set ?acc = insert (fst p) (fst ` set acc)"
    by simp
  moreover have "fst q \<noteq> fst p" if "q \<in> set ms" for q
  proof -
    have "fst p \<notin> set (map fst ms)" using Cons.prems(1) by simp
    moreover have "fst q \<in> set (map fst ms)" using that by simp
    ultimately show ?thesis by metis
  qed
  ultimately have "\<forall>q\<in>set ms. fst q \<notin> fst ` set ?acc"
    using Cons.prems(2) by simp
  then have "mset (foldl (\<lambda>ob p. define_key (fst p) (f (snd p)) ob) ?acc ms)
      = mset ?acc + mset (map (\<lambda>p. (fst p, f (snd p))) ms)"
    using Cons.IH [of ?acc] Cons.prems(1) by simp
  then show ?case using m by simp
qed

lemma map_of_replace_value:
  "map_of ps k \<noteq> None \<Longrightarrow> map_of (replace_value k v ps) = (map_of ps)(k \<mapsto> v)"
  by (induction ps) (auto simp: fun_eq_iff)

lemma map_of_insert_index:
  "map_of ps k = None \<Longrightarrow> map_of (insert_index n k v ps) = (map_of ps)(k \<mapsto> v)"
  by (induction ps) (auto simp: fun_eq_iff split: option.splits if_splits)

lemma map_of_snoc:
  "map_of ps k = None \<Longrightarrow> [k \<mapsto> v] ++ map_of ps = (map_of ps)(k \<mapsto> v)"
  by (auto simp: fun_eq_iff map_add_def split: option.splits)

lemma map_of_define_key: "map_of (define_key k v ps) = (map_of ps)(k \<mapsto> v)"
  by (simp add: define_key_def map_of_replace_value map_of_insert_index map_of_snoc
      split: option.splits)

lemma map_of_parse_members:
  "distinct (map fst ms) \<Longrightarrow>
     map_of (foldl (\<lambda>ob p. define_key (fst p) (f (snd p)) ob) acc ms) k
       = (case map_of ms k of None \<Rightarrow> map_of acc k | Some j \<Rightarrow> Some (f j))"
proof (induction ms arbitrary: acc)
  case Nil
  then show ?case by simp
next
  case (Cons p ms)
  have d: "distinct (map fst ms)" and n: "fst p \<notin> set (map fst ms)"
    using Cons.prems by simp_all
  have "map_of ms (fst p) = None" using n by (simp add: map_of_eq_None_iff)
  then show ?case
    using Cons.IH [OF d, of "define_key (fst p) (f (snd p)) acc"]
    by (cases p) (auto simp: map_of_define_key split: option.splits)
qed

lemma map_of_stringify_object:
  "distinct (map fst ob) \<Longrightarrow>
     map_of (JSON_stringify_object ob) k
       = (case map_of ob k of None \<Rightarrow> None | Some v \<Rightarrow> JSON_stringify_value v)"
proof (induction ob)
  case Nil
  then show ?case by (simp add: JSON_stringify_object_def map_filter_simps)
next
  case (Cons p ob)
  have n: "map_of ob (fst p) = None" using Cons.prems by (simp add: map_of_eq_None_iff)
  have ih: "map_of (JSON_stringify_object ob) k
       = (case map_of ob k of None \<Rightarrow> None | Some v \<Rightarrow> JSON_stringify_value v)"
    using Cons by simp
  show ?case
    using ih n
    by (cases p; cases "JSON_stringify_value (snd p)")
      (auto simp: JSON_stringify_object_def map_filter_simps split: option.splits)
qed

lemma keys_stringify_object: "set (map fst (JSON_stringify_object ob)) \<subseteq> set (map fst ob)"
  by (force simp: JSON_stringify_object_def map_filter_def)

lemma distinct_stringify_object:
  "distinct (map fst ob) \<Longrightarrow> distinct (map fst (JSON_stringify_object ob))"
proof (induction ob)
  case Nil
  then show ?case by (simp add: JSON_stringify_object_def map_filter_simps)
next
  case (Cons p ob)
  have "fst p \<notin> set (map fst (JSON_stringify_object ob))"
    using Cons.prems keys_stringify_object [of ob] by auto
  moreover have "distinct (map fst (JSON_stringify_object ob))" using Cons by simp
  moreover have "JSON_stringify_object (p # ob)
      = (case JSON_stringify_value (snd p) of None \<Rightarrow> JSON_stringify_object ob
         | Some j \<Rightarrow> (fst p, j) # JSON_stringify_object ob)"
    by (simp add: JSON_stringify_object_def map_filter_simps split: option.splits)
  ultimately show ?case by (simp split: option.splits)
qed

text \<open>
  A property read from an object that has gone through \<open>JSON.stringify\<close> and
  \<open>JSON.parse\<close>.
\<close>

lemma get_prop_JSON_round:
  assumes "distinct (map fst ob)"
  shows "get_prop (JSON_parse_object (JSON_stringify_object ob)) k
      = (case JSON_stringify_value (get_prop ob k) of
           None \<Rightarrow> JUndefined
         | Some j \<Rightarrow> JSON_parse_value j)"
  using map_of_parse_members [OF distinct_stringify_object [OF assms], of JSON_parse_value "[]" k]
    map_of_stringify_object [OF assms, of k]
  by (simp add: get_prop_def JSON_parse_object_def split: option.splits)

lemma JSON_round_finite:
  "\<forall>negative. v \<noteq> JInfinity negative \<Longrightarrow>
     (case JSON_stringify_value v of None \<Rightarrow> JUndefined | Some j \<Rightarrow> JSON_parse_value j) = v"
  by (cases v) auto

lemma findIndex_own_key:
  "distinct (map fst entries) \<Longrightarrow> j < length entries \<Longrightarrow>
     findIndex (\<lambda>p. fst p = fst (entries ! j)) entries = int j"
proof (induction entries arbitrary: j)
  case Nil
  then show ?case by simp
next
  case (Cons p ps)
  show ?case
  proof (cases j)
    case 0
    then show ?thesis by simp
  next
    case (Suc i)
    then have i: "i < length ps" using Cons.prems(2) by simp
    then have "fst (ps ! i) \<in> set (map fst ps)" by simp
    moreover have "fst p \<notin> set (map fst ps)" using Cons.prems(1) by simp
    ultimately have ne: "fst p \<noteq> fst (ps ! i)" by metis
    have "findIndex (\<lambda>q. fst q = fst (ps ! i)) ps = int i"
      using Cons.IH [OF _ i] Cons.prems(1) by simp
    then show ?thesis using Suc ne by (simp add: Let_def)
  qed
qed

lemma find_own_key:
  assumes "distinct (map fst entries)" and "i < length entries"
  shows "List.find (\<lambda>asin. findIndex (\<lambda>p. fst p = asin) entries = int i) (map fst entries)
      = Some (fst (entries ! i))"
proof -
  have "\<exists>j<length (map fst entries).
      findIndex (\<lambda>p. fst p = map fst entries ! j) entries = int i
      \<and> fst (entries ! i) = map fst entries ! j
      \<and> (\<forall>m<j. findIndex (\<lambda>p. fst p = map fst entries ! m) entries \<noteq> int i)"
  proof (intro exI [of _ i] conjI allI impI)
    show "i < length (map fst entries)" using assms(2) by simp
    show "findIndex (\<lambda>p. fst p = map fst entries ! i) entries = int i"
      using findIndex_own_key [OF assms] assms(2) by simp
    show "fst (entries ! i) = map fst entries ! i" using assms(2) by simp
  next
    fix m assume "m < i"
    then have "findIndex (\<lambda>p. fst p = fst (entries ! m)) entries = int m"
      using findIndex_own_key [OF assms(1), of m] assms(2) by simp
    then show "findIndex (\<lambda>p. fst p = map fst entries ! m) entries \<noteq> int i"
      using \<open>m < i\<close> assms(2) by simp
  qed
  then show ?thesis by (simp only: find_Some_iff)
qed

lemma loaded_book_own:
  "distinct (map fst entries) \<Longrightarrow> i < length entries \<Longrightarrow>
     loaded_book entries i = reloaded (entries ! i)"
  by (simp add: loaded_book_def Let_def find_own_key reloaded_def)

lemma loaded_books_map:
  assumes "distinct (map fst entries)"
  shows "map (loaded_book entries) [0..<length entries] = map reloaded entries"
proof (rule nth_equalityI)
  show "length (map (loaded_book entries) [0..<length entries]) = length (map reloaded entries)"
    by simp
next
  fix i assume "i < length (map (loaded_book entries) [0..<length entries])"
  then have "i < length entries" by simp
  then show "map (loaded_book entries) [0..<length entries] ! i = map reloaded entries ! i"
    using loaded_book_own [OF assms] by simp
qed


lemma js_or_keep: "truthy v \<or> v = d \<Longrightarrow> js_or v d = v"
  by (auto simp: js_or_def)

lemma distinct_exported_book: "distinct (map fst (exported_book e pg b))"
  by (simp add: exported_book_def Let_def)

lemma record_fields_round:
  assumes "asin_of b = JStr k"
    and "truthy (get_prop b ''title'') \<or> get_prop b ''title'' = JStr []"
    and "truthy (get_prop b ''authors'') \<or> get_prop b ''authors'' = JStr []"
    and "truthy (get_prop b ''acquiredTime'')"
    and "truthy (get_prop b ''readStatus'')"
    and "truthy (get_prop b ''productImage'') \<or> get_prop b ''productImage'' = JStr []"
    and "truthy (get_prop b ''source'')"
    and "truthy (get_prop b ''addedDate'')"
    and "\<forall>p\<in>set [''title'', ''authors'', ''acquiredTime'', ''readStatus'', ''productImage'',
                   ''source'', ''addedDate'']. \<forall>negative. get_prop b p \<noteq> JInfinity negative"
  shows "record_fields (reloaded (ToString (asin_of b),
            JSON_parse_object (JSON_stringify_object (exported_book e pg b))))
       = record_fields b"
proof -
  have x: "get_prop (exported_book e pg b) ''title'' = get_prop b ''title''"
    "get_prop (exported_book e pg b) ''authors'' = get_prop b ''authors''"
    "get_prop (exported_book e pg b) ''acquiredTime'' = get_prop b ''acquiredTime''"
    "get_prop (exported_book e pg b) ''readStatus'' = get_prop b ''readStatus''"
    "get_prop (exported_book e pg b) ''productImage'' = get_prop b ''productImage''"
    "get_prop (exported_book e pg b) ''source'' = get_prop b ''source''"
    "get_prop (exported_book e pg b) ''addedDate'' = get_prop b ''addedDate''"
    using assms(2-8)
    by (simp_all add: exported_book_def Let_def get_prop_def [of "_ # _"] js_or_keep)
  have y: "get_prop (JSON_parse_object (JSON_stringify_object (exported_book e pg b))) p
      = get_prop b p"
    if "p \<in> set [''title'', ''authors'', ''acquiredTime'', ''readStatus'', ''productImage'',
                  ''source'', ''addedDate'']" for p
  proof -
    have "get_prop (exported_book e pg b) p = get_prop b p" using that x by auto
    moreover have "\<forall>negative. get_prop b p \<noteq> JInfinity negative" using that assms(9) by blast
    ultimately show ?thesis
      using get_prop_JSON_round [OF distinct_exported_book, of e pg b p]
      by (simp add: JSON_round_finite)
  qed
  show ?thesis
    using assms(1) by (simp add: record_fields_def reloaded_def y get_prop_def [of "_ # _"])
qed


text \<open>
  Claim C6, as amended. Let the books have pairwise distinct ASINs, each a non-empty
  string other than \<open>__proto__\<close>, let \<open>acquiredTime\<close>, \<open>readStatus\<close>, \<open>source\<close> and
  \<open>addedDate\<close> of every book be truthy, let \<open>title\<close>, \<open>authors\<close> and \<open>productImage\<close> be
  truthy or the empty string, and let none of these seven properties be \<open>Infinity\<close> or
  \<open>-Infinity\<close>. Then writing the books to the file as \<open>exportUnifiedData\<close> does and
  loading the file through the \<open>library.json\<close> branch of \<open>initialize\<close> gives the same
  records, each as often as before (possibly in another order): the same ASIN, title,
  authors, acquiredTime, readStatus, productImage, source and addedDate.
\<close>

theorem export_import_round_trip:
  assumes "distinct (map asin_of bs)"
    and "\<forall>b\<in>set bs.
           (\<exists>k. asin_of b = JStr k \<and> k \<noteq> [] \<and> k \<noteq> ''__proto__'')
         \<and> (truthy (get_prop b ''title'') \<or> get_prop b ''title'' = JStr [])
         \<and> (truthy (get_prop b ''authors'') \<or> get_prop b ''authors'' = JStr [])
         \<and> truthy (get_prop b ''acquiredTime'')
         \<and> truthy (get_prop b ''readStatus'')
         \<and> (truthy (get_prop b ''productImage'') \<or> get_prop b ''productImage'' = JStr [])
         \<and> truthy (get_prop b ''source'')
         \<and> truthy (get_prop b ''addedDate'')
         \<and> (\<forall>p\<in>set [''title'', ''authors'', ''acquiredTime'', ''readStatus'', ''productImage'',
                        ''source'', ''addedDate''].
               \<forall>negative. get_prop b p \<noteq> JInfinity negative)"
  shows "mset (map record_fields
                 (books (initialize_from_library_json (Some (exportUnifiedData e today bs pg)))))
       = mset (map record_fields bs)"
proof -
  define E where "E = export_books e pg bs []"
  define J where "J = map (\<lambda>p. (fst p, JSON_stringify_object (snd p))) E"
  define P where "P = JSON_parse_books J"
  define g where "g = (\<lambda>b. (ToString (asin_of b), exported_book e pg b))"
  define r where "r = (\<lambda>p::string \<times> obj. (fst p, JSON_parse_object (JSON_stringify_object (snd p))))"
  have tr: "\<forall>b\<in>set bs. truthy (asin_of b) \<and> ToString (asin_of b) \<noteq> ''__proto__''"
    using assms(2) by auto
  have str: "\<exists>k. x = JStr k" if "x \<in> set (map asin_of bs)" for x
  proof -
    from that obtain b where "b \<in> set bs" "x = asin_of b" by auto
    then show ?thesis using assms(2) by blast
  qed
  have "inj_on ToString (set (map asin_of bs))"
  proof (rule inj_onI)
    fix x y assume "x \<in> set (map asin_of bs)" "y \<in> set (map asin_of bs)" "ToString x = ToString y"
    moreover from this str [of x] str [of y] obtain k l where "x = JStr k" "y = JStr l" by blast
    ultimately show "x = y" by simp
  qed
  then have "distinct (map ToString (map asin_of bs))"
    using assms(1) by (simp only: distinct_map)
  then have dk: "distinct (map (\<lambda>b. ToString (asin_of b)) bs)"
    by (simp add: comp_def)
  have mE: "mset E = mset (map g bs)"
    unfolding E_def g_def using export_books_mset [OF tr dk, of "[]" e pg] by simp
  have "distinct (map fst (map g bs))" using dk by (simp add: g_def comp_def)
  then have dE: "distinct (map fst E)" using distinct_keys_mset [OF mE] by simp
  then have dJ: "distinct (map fst J)" by (simp add: J_def comp_def)
  have "mset P = mset (map (\<lambda>p. (fst p, JSON_parse_object (snd p))) J)"
    unfolding P_def JSON_parse_books_def
    using parse_members_mset [OF dJ, of "[]" JSON_parse_object] by simp
  then have mP: "mset P = mset (map r E)"
    by (simp add: J_def r_def comp_def)
  have "distinct (map fst (map r E))" using dE by (simp add: r_def comp_def)
  then have dP: "distinct (map fst P)" using distinct_keys_mset [OF mP] by simp
  have "books (initialize_from_library_json (Some (exportUnifiedData e today bs pg)))
      = map (loaded_book P) [0..<length P]"
    by (simp add: initialize_from_library_json_def exportUnifiedData_def Let_def E_def J_def P_def)
  then have "books (initialize_from_library_json (Some (exportUnifiedData e today bs pg)))
      = map reloaded P"
    using loaded_books_map [OF dP] by simp
  then have "mset (map record_fields
                 (books (initialize_from_library_json (Some (exportUnifiedData e today bs pg)))))
      = image_mset (\<lambda>kv. record_fields (reloaded kv)) (mset P)"
    by (simp add: comp_def)
  also have "\<dots> = image_mset (\<lambda>kv. record_fields (reloaded kv)) (mset (map r E))"
    by (simp only: mP)
  also have "\<dots> = image_mset (\<lambda>kv. record_fields (reloaded (r kv))) (mset E)"
    by (simp add: multiset.map_comp comp_def)
  also have "\<dots> = image_mset (\<lambda>kv. record_fields (reloaded (r kv))) (mset (map g bs))"
    by (simp only: mE)
  also have "\<dots> = mset (map (\<lambda>b. record_fields (reloaded (r (g b)))) bs)"
    by (simp add: multiset.map_comp comp_def)
  also have "map (\<lambda>b. record_fields (reloaded (r (g b)))) bs = map record_fields bs"
  proof (rule map_cong [OF refl])
    fix b
    assume "b \<in> set bs"
    then have h: "(\<exists>k. asin_of b = JStr k \<and> k \<noteq> [] \<and> k \<noteq> ''__proto__'')
         \<and> (truthy (get_prop b ''title'') \<or> get_prop b ''title'' = JStr [])
         \<and> (truthy (get_prop b ''authors'') \<or> get_prop b ''authors'' = JStr [])
         \<and> truthy (get_prop b ''acquiredTime'')
         \<and> truthy (get_prop b ''readStatus'')
         \<and> (truthy (get_prop b ''productImage'') \<or> get_prop b ''productImage'' = JStr [])
         \<and> truthy (get_prop b ''source'')
         \<and> truthy (get_prop b ''addedDate'')
         \<and> (\<forall>p\<in>set [''title'', ''authors'', ''acquiredTime'', ''readStatus'', ''productImage'',
                        ''source'', ''addedDate''].
               \<forall>negative. get_prop b p \<noteq> JInfinity negative)"
      using assms(2) by (simp only: Ball_def) blast
    then obtain k where k: "asin_of b = JStr k" by blast
    have "record_fields (reloaded (ToString (asin_of b),
            JSON_parse_object (JSON_stringify_object (exported_book e pg b))))
       = record_fields b"
      by (rule record_fields_round [OF k]) (use h in blast)+
    then show "record_fields (reloaded (r (g b))) = record_fields b"
      by (simp add: g_def r_def)
  qed
  finally show ?thesis .
qed

text \<open>
  The export replaces every falsy property by a default, turns the key into a string,
  cannot store the key \<open>__proto__\<close>, and writes an infinite number as \<open>null\<close>. Of the
  five books below, the first comes back with the time of the export as its acquisition
  time, the second with the read status \<open>UNREAD\<close>, the third not at all, the fourth with
  the string \<open>1234567890\<close> as its ASIN (and listed first), and the fifth with the
  acquisition time \<open>null\<close>: none of them comes back as it was.
\<close>

theorem export_import_round_trip_counterexample:
  "distinct (map asin_of
      [[(''asin'', JStr ''B000000001''), (''title'', JStr ''Dune''),
        (''authors'', JStr ''Herbert''), (''acquiredTime'', JNum 0),
        (''readStatus'', JStr ''READ''), (''productImage'', JStr []),
        (''source'', JStr ''kindle_import''), (''addedDate'', JNum 1600000000000)],
       [(''asin'', JStr ''B000000002''), (''title'', JStr ''Emma''),
        (''authors'', JStr ''Austen''), (''acquiredTime'', JNum 1500000000000),
        (''productImage'', JStr []), (''source'', JStr ''kindle_import''),
        (''addedDate'', JNum 1600000000000)],
       [(''asin'', JStr ''__proto__''), (''title'', JStr ''Ulysses''),
        (''authors'', JStr ''Joyce''), (''acquiredTime'', JNum 1500000000000),
        (''readStatus'', JStr ''READ''), (''productImage'', JStr []),
        (''source'', JStr ''kindle_import''), (''addedDate'', JNum 1600000000000)],
       [(''asin'', JNum 1234567890), (''title'', JStr ''Kokoro''),
        (''authors'', JStr ''Soseki''), (''acquiredTime'', JNum 1500000000000),
        (''readStatus'', JStr ''READ''), (''productImage'', JStr []),
        (''source'', JStr ''kindle_import''), (''addedDate'', JNum 1600000000000)],
       [(''asin'', JStr ''B000000003''), (''title'', JStr ''Walden''),
        (''authors'', JStr ''Thoreau''), (''acquiredTime'', JInfinity False),
        (''readStatus'', JStr ''READ''), (''productImage'', JStr []),
        (''source'', JStr ''kindle_import''), (''addedDate'', JNum 1600000000000)]])
   \<and> map record_fields (books (initialize_from_library_json (Some (exportUnifiedData
        \<lparr>Date_now = 1700000000000, JSON_stringify = (\<lambda>l. ''{}'')\<rparr>
        ''2025-01-01T00:00:00.000Z''
      [[(''asin'', JStr ''B000000001''), (''title'', JStr ''Dune''),
        (''authors'', JStr ''Herbert''), (''acquiredTime'', JNum 0),
        (''readStatus'', JStr ''READ''), (''productImage'', JStr []),
        (''source'', JStr ''kindle_import''), (''addedDate'', JNum 1600000000000)],
       [(''asin'', JStr ''B000000002''), (''title'', JStr ''Emma''),
        (''authors'', JStr ''Austen''), (''acquiredTime'', JNum 1500000000000),
        (''productImage'', JStr []), (''source'', JStr ''kindle_import''),
        (''addedDate'', JNum 1600000000000)],
       [(''asin'', JStr ''__proto__''), (''title'', JStr ''Ulysses''),
        (''authors'', JStr ''Joyce''), (''acquiredTime'', JNum 1500000000000),
        (''readStatus'', JStr ''READ''), (''productImage'', JStr []),
        (''source'', JStr ''kindle_import''), (''addedDate'', JNum 1600000000000)],
       [(''asin'', JNum 1234567890), (''title'', JStr ''Kokoro''),
        (''authors'', JStr ''Soseki''), (''acquiredTime'', JNum 1500000000000),
        (''readStatus'', JStr ''READ''), (''productImage'', JStr []),
        (''source'', JStr ''kindle_import''), (''addedDate'', JNum 1600000000000)],
       [(''asin'', JStr ''B000000003''), (''title'', JStr ''Walden''),
        (''authors'', JStr ''Thoreau''), (''acquiredTime'', JInfinity False),
        (''readStatus'', JStr ''READ''), (''productImage'', JStr []),
        (''source'', JStr ''kindle_import''), (''addedDate'', JNum 1600000000000)]]
         \<lparr>bookshelf = \<lparr>userNotes = Map.empty, bookOrder = Map.empty, filteredBooks = [],
                       sortOrder = ''custom''\<rparr>,
          inherited = (\<lambda>k. [])\<rparr>))))
     =
       [[JStr ''1234567890'', JStr ''Kokoro'', JStr ''Soseki'', JNum 1500000000000,
         JStr ''READ'', JStr [], JStr ''kindle_import'', JNum 1600000000000],
        [JStr ''B000000001'', JStr ''Dune'', JStr ''Herbert'', JNum 1700000000000,
         JStr ''READ'', JStr [], JStr ''kindle_import'', JNum 1600000000000],
        [JStr ''B000000002'', JStr ''Emma'', JStr ''Austen'', JNum 1500000000000,
         JStr ''UNREAD'', JStr [], JStr ''kindle_import'', JNum 1600000000000],
        [JStr ''B000000003'', JStr ''Walden'', JStr ''Thoreau'', JNull, JStr ''READ'',
         JStr [], JStr ''kindle_import'', JNum 1600000000000]]
   \<and> list_all
       (\<lambda>r. r \<notin> set
       [[JStr ''1234567890'', JStr ''Kokoro'', JStr ''Soseki'', JNum 1500000000000,
         JStr ''READ'', JStr [], JStr ''kindle_import'', JNum 1600000000000],
        [JStr ''B000000001'', JStr ''Dune'', JStr ''Herbert'', JNum 1700000000000,
         JStr ''READ'', JStr [], JStr ''kindle_import'', JNum 1600000000000],
        [JStr ''B000000002'', JStr ''Emma'', JStr ''Austen'', JNum 1500000000000,
         JStr ''UNREAD'', JStr [], JStr ''kindle_import'', JNum 1600000000000],
        [JStr ''B000000003'', JStr ''Walden'', JStr ''Thoreau'', JNull, JStr ''READ'',
         JStr [], JStr ''kindle_import'', JNum 1600000000000]])
       (map record_fields
      [[(''asin'', JStr ''B000000001''), (''title'', JStr ''Dune''),
        (''authors'', JStr ''Herbert''), (''acquiredTime'', JNum 0),
        (''readStatus'', JStr ''READ''), (''productImage'', JStr []),
        (''source'', JStr ''kindle_import''), (''addedDate'', JNum 1600000000000)],
       [(''asin'', JStr ''B000000002''), (''title'', JStr ''Emma''),
        (''authors'', JStr ''Austen''), (''acquiredTime'', JNum 1500000000000),
        (''productImage'', JStr []), (''source'', JStr ''kindle_import''),
        (''addedDate'', JNum 1600000000000)],
       [(''asin'', JStr ''__proto__''), (''title'', JStr ''Ulysses''),
        (''authors'', JStr ''Joyce''), (''acquiredTime'', JNum 1500000000000),
        (''readStatus'', JStr ''READ''), (''productImage'', JStr []),
        (''source'', JStr ''kindle_import''), (''addedDate'', JNum 1600000000000)],
       [(''asin'', JNum 1234567890), (''title'', JStr ''Kokoro''),
        (''authors'', JStr ''Soseki''), (''acquiredTime'', JNum 1500000000000),
        (''readStatus'', JStr ''READ''), (''productImage'', JStr []),
        (''source'', JStr ''kindle_import''), (''addedDate'', JNum 1600000000000)],
       [(''asin'', JStr ''B000000003''), (''title'', JStr ''Walden''),
        (''authors'', JStr ''Thoreau''), (''acquiredTime'', JInfinity False),
        (''readStatus'', JStr ''READ''), (''productImage'', JStr []),
        (''source'', JStr ''kindle_import''), (''addedDate'', JNum 1600000000000)]])"
  by (simp add: initialize_from_library_json_def exportUnifiedData_def Let_def
      exported_book_def assign_key_def define_key_def array_index_def is_digit_def
      digits_value_def JSON_stringify_object_def JSON_parse_object_def JSON_parse_books_def
      map_filter_simps notes_get_def note_memo_def note_rating_def Object_prototype_names_def
      loaded_book_def record_fields_def get_prop_def js_or_def string_of_nat.simps
      digit_char_def)

text \<open>
  Two books that meet the conditions. The ASIN of the second is an array index, so the
  file and the loaded library list it first.
\<close>

theorem export_import_round_trip_witness:
  "distinct (map asin_of
      [[(''asin'', JStr ''B000000001''), (''title'', JStr ''Dune''),
        (''authors'', JStr ''Herbert''), (''acquiredTime'', JNum 1500000000000),
        (''readStatus'', JStr ''READ''), (''productImage'', JStr []),
        (''source'', JStr ''kindle_import''), (''addedDate'', JNum 1600000000000)],
       [(''asin'', JStr ''4101010013''), (''title'', JStr ''Kokoro''), (''authors'', JStr []),
        (''acquiredTime'', JNum 1500000000001), (''readStatus'', JStr ''UNKNOWN''),
        (''productImage'', JStr ''cover.jpg''), (''source'', JStr ''manual_add''),
        (''addedDate'', JNum 1600000000001)]])
   \<and> map record_fields (books (initialize_from_library_json (Some (exportUnifiedData
        \<lparr>Date_now = 1700000000000, JSON_stringify = (\<lambda>l. ''{}'')\<rparr>
        ''2025-01-01T00:00:00.000Z''
      [[(''asin'', JStr ''B000000001''), (''title'', JStr ''Dune''),
        (''authors'', JStr ''Herbert''), (''acquiredTime'', JNum 1500000000000),
        (''readStatus'', JStr ''READ''), (''productImage'', JStr []),
        (''source'', JStr ''kindle_import''), (''addedDate'', JNum 1600000000000)],
       [(''asin'', JStr ''4101010013''), (''title'', JStr ''Kokoro''), (''authors'', JStr []),
        (''acquiredTime'', JNum 1500000000001), (''readStatus'', JStr ''UNKNOWN''),
        (''productImage'', JStr ''cover.jpg''), (''source'', JStr ''manual_add''),
        (''addedDate'', JNum 1600000000001)]]
         \<lparr>bookshelf = \<lparr>userNotes = Map.empty, bookOrder = Map.empty, filteredBooks = [],
                       sortOrder = ''custom''\<rparr>,
          inherited = (\<lambda>k. [])\<rparr>))))
     = [[JStr ''4101010013'', JStr ''Kokoro'', JStr [], JNum 1500000000001, JStr ''UNKNOWN'',
       JStr ''cover.jpg'', JStr ''manual_add'', JNum 1600000000001],
      [JStr ''B000000001'', JStr ''Dune'', JStr ''Herbert'', JNum 1500000000000,
       JStr ''READ'', JStr [], JStr ''kindle_import'', JNum 1600000000000]]
   \<and> mset
     [[JStr ''4101010013'', JStr ''Kokoro'', JStr [], JNum 1500000000001, JStr ''UNKNOWN'',
       JStr ''cover.jpg'', JStr ''manual_add'', JNum 1600000000001],
      [JStr ''B000000001'', JStr ''Dune'', JStr ''Herbert'', JNum 1500000000000,
       JStr ''READ'', JStr [], JStr ''kindle_import'', JNum 1600000000000]]
     = mset (map record_fields
      [[(''asin'', JStr ''B000000001''), (''title'', JStr ''Dune''),
        (''authors'', JStr ''Herbert''), (''acquiredTime'', JNum 1500000000000),
        (''readStatus'', JStr ''READ''), (''productImage'', JStr []),
        (''source'', JStr ''kindle_import''), (''addedDate'', JNum 1600000000000)],
       [(''asin'', JStr ''4101010013''), (''title'', JStr ''Kokoro''), (''authors'', JStr []),
        (''acquiredTime'', JNum 1500000000001), (''readStatus'', JStr ''UNKNOWN''),
        (''productImage'', JStr ''cover.jpg''), (''source'', JStr ''manual_add''),
        (''addedDate'', JNum 1600000000001)]])"
proof -
  let ?bs = "[[(''asin'', JStr ''B000000001''), (''title'', JStr ''Dune''),
        (''authors'', JStr ''Herbert''), (''acquiredTime'', JNum 1500000000000),
        (''readStatus'', JStr ''READ''), (''productImage'', JStr []),
        (''source'', JStr ''kindle_import''), (''addedDate'', JNum 1600000000000)],
       [(''asin'', JStr ''4101010013''), (''title'', JStr ''Kokoro''), (''authors'', JStr []),
        (''acquiredTime'', JNum 1500000000001), (''readStatus'', JStr ''UNKNOWN''),
        (''productImage'', JStr ''cover.jpg''), (''source'', JStr ''manual_add''),
        (''addedDate'', JNum 1600000000001)]]"
  have d: "distinct (map asin_of ?bs)"
    by (simp add: get_prop_def)
  have h: "\<forall>b\<in>set ?bs.
           (\<exists>k. asin_of b = JStr k \<and> k \<noteq> [] \<and> k \<noteq> ''__proto__'')
         \<and> (truthy (get_prop b ''title'') \<or> get_prop b ''title'' = JStr [])
         \<and> (truthy (get_prop b ''authors'') \<or> get_prop b ''authors'' = JStr [])
         \<and> truthy (get_prop b ''acquiredTime'')
         \<and> truthy (get_prop b ''readStatus'')
         \<and> (truthy (get_prop b ''productImage'') \<or> get_prop b ''productImage'' = JStr [])
         \<and> truthy (get_prop b ''source'')
         \<and> truthy (get_prop b ''addedDate'')
         \<and> (\<forall>p\<in>set [''title'', ''authors'', ''acquiredTime'', ''readStatus'', ''productImage'',
                        ''source'', ''addedDate''].
               \<forall>negative. get_prop b p \<noteq> JInfinity negative)"
    by (simp add: get_prop_def)
  have c: "map record_fields (books (initialize_from_library_json (Some (exportUnifiedData
        \<lparr>Date_now = 1700000000000, JSON_stringify = (\<lambda>l. ''{}'')\<rparr>
        ''2025-01-01T00:00:00.000Z'' ?bs
         \<lparr>bookshelf = \<lparr>userNotes = Map.empty, bookOrder = Map.empty, filteredBooks = [],
                       sortOrder = ''custom''\<rparr>,
          inherited = (\<lambda>k. [])\<rparr>))))
     = [[JStr ''4101010013'', JStr ''Kokoro'', JStr [], JNum 1500000000001, JStr ''UNKNOWN'',
       JStr ''cover.jpg'', JStr ''manual_add'', JNum 1600000000001],
      [JStr ''B000000001'', JStr ''Dune'', JStr ''Herbert'', JNum 1500000000000,
       JStr ''READ'', JStr [], JStr ''kindle_import'', JNum 1600000000000]]"
    by (simp add: initialize_from_library_json_def exportUnifiedData_def Let_def
      exported_book_def assign_key_def define_key_def array_index_def is_digit_def
      digits_value_def JSON_stringify_object_def JSON_parse_object_def JSON_parse_books_def
      map_filter_simps notes_get_def note_memo_def note_rating_def Object_prototype_names_def
      loaded_book_def record_fields_def get_prop_def js_or_def string_of_nat.simps
      digit_char_def)
  show ?thesis
    using d c export_import_round_trip [OF d h,
        of "\<lparr>Date_now = 1700000000000, JSON_stringify = (\<lambda>l. ''{}'')\<rparr>"
           "''2025-01-01T00:00:00.000Z''"
           "\<lparr>bookshelf = \<lparr>userNotes = Map.empty, bookOrder = Map.empty, filteredBooks = [],
                       sortOrder = ''custom''\<rparr>,
          inherited = (\<lambda>k. [])\<rparr>"]
    by (simp only: simp_thms)
qed

section \<open>Properties of the ASIN extraction\<close>

lemma capture_group_valid: "capture_group s = Some g \<Longrightarrow> asin_pattern g"
  by (auto simp: capture_group_def asin_pattern_def split: if_splits)

lemma literal_group_valid: "literal_group lit s = Some g \<Longrightarrow> asin_pattern g"
  by (auto simp: literal_group_def dest: capture_group_valid split: if_splits)

lemma dot_star_valid:
  "dot_star k s = Some g \<Longrightarrow> (\<And>t. k t = Some g \<Longrightarrow> asin_pattern g) \<Longrightarrow> asin_pattern g"
  by (induction k s rule: dot_star.induct) (auto split: if_splits option.splits)

lemma literal_any_group_valid: "literal_any_group lit1 lit2 s = Some g \<Longrightarrow> asin_pattern g"
  by (auto simp: literal_any_group_def dest: dot_star_valid literal_group_valid split: if_splits)

lemma slash_group_end_valid: "slash_group_end s = Some g \<Longrightarrow> asin_pattern g"
  by (auto simp: slash_group_end_def dest: capture_group_valid split: list.splits if_splits)

lemma search_valid:
  "search m s = Some g \<Longrightarrow> (\<And>t. m t = Some g \<Longrightarrow> asin_pattern g) \<Longrightarrow> asin_pattern g"
  by (induction m s rule: search.induct) (auto split: option.splits)

lemma first_match_valid:
  "(\<And>m t g. m \<in> set ps \<Longrightarrow> m t = Some g \<Longrightarrow> asin_pattern g) \<Longrightarrow>
     first_match ps url = JNull \<or> (\<exists>g. first_match ps url = JStr g \<and> asin_pattern g)"
proof (induction ps)
  case Nil
  then show ?case by simp
next
  case (Cons m ps)
  show ?case
  proof (cases "search m url")
    case None
    have "asin_pattern g" if "m' \<in> set ps" "m' t = Some g" for m' t g
      using that Cons.prems [of m' t g] by simp
    then have "first_match ps url = JNull \<or> (\<exists>g. first_match ps url = JStr g \<and> asin_pattern g)"
      by (rule Cons.IH)
    then show ?thesis using None by simp
  next
    case (Some g)
    have "asin_pattern g" if "m t = Some g" for t
      using that Cons.prems [of m t g] by simp
    with Some have "asin_pattern g" by (rule search_valid)
    then show ?thesis using Some by simp
  qed
qed

text \<open>
  Claim C10. For every string, \<open>extractASINFromUrl\<close> returns \<open>null\<close> or a string that
  \<open>isValidASIN\<close> accepts: ten characters, each a capital letter or a digit.
\<close>

theorem extractASINFromUrl_sound:
  "extractASINFromUrl url = JNull
   \<or> (\<exists>asin. extractASINFromUrl url = JStr asin \<and> isValidASIN (JStr asin)
         \<and> length asin = 10 \<and> list_all asin_char asin)"
proof -
  have "asin_pattern g" if "m \<in> set patterns" "m t = Some g" for m t g
    using that
    by (auto simp: patterns_def dest: literal_group_valid literal_any_group_valid
        slash_group_end_valid)
  from first_match_valid [of patterns url, OF this]
  show ?thesis
    by (auto simp: extractASINFromUrl_def isValidASIN_def asin_pattern_def)
qed

text \<open>Three links and a string that holds no ASIN.\<close>

lemma extractASINFromUrl_product_link: "extractASINFromUrl ''https://www.amazon.co.jp/dp/B07XYZ1234?ref=x'' = JStr ''B07XYZ1234''"
  by (simp add: extractASINFromUrl_def patterns_def literal_group_def capture_group_def asin_char_def)

lemma extractASINFromUrl_titled_link: "extractASINFromUrl ''https://www.amazon.com/Some-Book/dp/4101010013/ref=sr'' = JStr ''4101010013''"
  by (simp add: extractASINFromUrl_def patterns_def literal_group_def capture_group_def asin_char_def
     literal_any_group_def line_terminator_at_def)

lemma extractASINFromUrl_other_site: "extractASINFromUrl ''https://example.org/gp/product/B07XYZ1234'' = JStr ''B07XYZ1234''"
  by (simp add: extractASINFromUrl_def patterns_def literal_group_def capture_group_def asin_char_def
     literal_any_group_def line_terminator_at_def slash_group_end_def)

lemma extractASINFromUrl_no_match: "extractASINFromUrl ''https://example.org/b07xyz1234'' = JNull"
  by (simp add: extractASINFromUrl_def patterns_def literal_group_def capture_group_def asin_char_def
     literal_any_group_def line_terminator_at_def slash_group_end_def)

end
